theory Spec2Isabelle
  imports Main
begin

section \<open>The group handlers of api4/group.go\<close>

text \<open>
  The file \<^verbatim>\<open>api4/group.go\<close> holds the HTTP handlers of the group API. Each handler
  reads the request parameters \<^verbatim>\<open>c.Params\<close>, checks the licence and the session's
  permissions, calls methods of \<^verbatim>\<open>c.App\<close> and either sets \<^verbatim>\<open>c.Err\<close> or writes a
  response. The handlers are embedded as functions of the parameters, of the store's
  state and of the collaborators they call; each returns its outcome (\<open>Inl\<close> the error
  left in \<^verbatim>\<open>c.Err\<close>, \<open>Inr\<close> the value written), the store's state afterwards where
  the handler can write, and the list of the collaborator calls it made, in order.
  The values the handlers write are plain records, for which \<^verbatim>\<open>json.Marshal\<close> returns
  no error, so the branch for a marshal error is not part of the embedding; the
  response is the value that is marshalled.
\<close>

subsection \<open>Request parameters\<close>

text \<open>
  Modelled from the spec: \<^verbatim>\<open>model.GroupSyncableType\<close> is declared outside group.go;
  the type of a syncable is one of Team and Channel, the two constants the switch of
  linkGroupSyncable names.
\<close>

datatype GroupSyncableType = GroupSyncableTypeTeam | GroupSyncableTypeChannel

text \<open>\<^verbatim>\<open>c.Params\<close>: the fields the handlers of group.go read.\<close>

record Params =
  GroupId :: string
  SyncableId :: string
  SyncableType :: GroupSyncableType
  TeamId :: string
  Q :: string
  NotAssociatedToTeam :: string
  IncludeMemberCount :: bool
  Page :: int
  PerPage :: int
  Paginate :: "bool option"

subsection \<open>Records of the model package\<close>

text \<open>The permissions of the model package that group.go names.\<close>

datatype Permission =
    PERMISSION_MANAGE_SYSTEM
  | PERMISSION_MANAGE_TEAM
  | PERMISSION_MANAGE_PUBLIC_CHANNEL_MEMBERS
  | PERMISSION_MANAGE_PRIVATE_CHANNEL_MEMBERS

text \<open>
  \<^verbatim>\<open>model.AppError\<close>, with the fields that \<^verbatim>\<open>model.NewAppError(where, id, params,
  details, status)\<close> is given in group.go (params is nil at every call).
\<close>

record AppError =
  Where :: string
  Id :: string
  DetailedError :: string
  StatusCode :: nat

definition NewAppError :: "string \<Rightarrow> string \<Rightarrow> string \<Rightarrow> nat \<Rightarrow> AppError" where
  "NewAppError w i details status =
     \<lparr>Where = w, Id = i, DetailedError = details, StatusCode = status\<rparr>"

text \<open>\<^verbatim>\<open>sql.ErrNoRows.Error()\<close> of Go's database/sql.\<close>

definition ErrNoRows :: string where
  "ErrNoRows = ''sql: no rows in result set''"

text \<open>
  What a handler leaves in \<^verbatim>\<open>c.Err\<close>: an \<^verbatim>\<open>AppError\<close> built by \<^verbatim>\<open>NewAppError\<close> or
  returned by the app, or the error set by \<^verbatim>\<open>c.SetPermissionError(permission)\<close>,
  \<^verbatim>\<open>c.SetInvalidParam(name)\<close> or \<^verbatim>\<open>c.SetInvalidUrlParam(name)\<close>, kept with its
  argument. \<open>NilDereference\<close> is the panic of a method called on a nil record.
\<close>

datatype Err =
    AppErr AppError
  | PermissionError Permission
  | InvalidParam string
  | InvalidUrlParam string
  | NilDereference

text \<open>
  Modelled from the spec: \<^verbatim>\<open>model.GroupSyncable\<close> is declared outside group.go. The
  record has the composite identity (group id, syncable id, type), the auto-add flag,
  the creation timestamp and the soft-delete timestamp \<open>DeleteAt\<close> of the data model.
\<close>

record GroupSyncable =
  GroupId :: string
  SyncableId :: string
  Type :: GroupSyncableType
  AutoAdd :: bool
  CreateAt :: int
  DeleteAt :: int

text \<open>
  Modelled from the spec: \<^verbatim>\<open>model.GroupSyncablePatch\<close> and \<^verbatim>\<open>GroupSyncable.Patch\<close> are
  declared outside group.go. A patch is a partial update payload; applying it changes
  only the fields present in it and leaves the others unchanged. The patchable field
  is the auto-add flag.
\<close>

record GroupSyncablePatch =
  PatchAutoAdd :: "bool option"

definition Patch :: "GroupSyncable \<Rightarrow> GroupSyncablePatch \<Rightarrow> GroupSyncable" where
  "Patch syncable patch =
     (case PatchAutoAdd patch of
        None \<Rightarrow> syncable
      | Some b \<Rightarrow> syncable\<lparr>AutoAdd := b\<rparr>)"

text \<open>\<^verbatim>\<open>model.GroupSearchOpts\<close>, with the three fields group.go sets.\<close>

record GroupSearchOpts =
  Q :: "string option"
  NotAssociatedToTeam :: "string option"
  IncludeMemberCount :: bool

subsection \<open>Collaborators\<close>

text \<open>
  The methods the handlers call that are defined outside group.go, taken as parameters:
  the checks of the request context (\<^verbatim>\<open>c.RequireGroupId()\<close> and its siblings, each
  giving the error it sets, if any), \<^verbatim>\<open>syncableType.String()\<close>, and the methods of
  \<^verbatim>\<open>c.App\<close>. \<open>License\<close> is \<open>None\<close> when \<^verbatim>\<open>c.App.License()\<close> is nil and otherwise holds
  \<^verbatim>\<open>*License().Features.LDAPGroups\<close>. The permission checks are those of the session of
  the request. A method returning \<^verbatim>\<open>(*T, *model.AppError)\<close> returns a pair of options;
  the methods that write also return the store's new state. \<open>'st\<close> is the state of the
  store and \<open>'g\<close> is \<^verbatim>\<open>model.Group\<close>, which the handlers only pass on.
\<close>

record ('st, 'g) App =
  RequireGroupId :: "Params \<Rightarrow> Err option"
  RequireSyncableId :: "Params \<Rightarrow> Err option"
  RequireSyncableType :: "Params \<Rightarrow> Err option"
  RequireTeamId :: "Params \<Rightarrow> Err option"
  TypeString :: "GroupSyncableType \<Rightarrow> string"
  License :: "bool option"
  SessionHasPermissionTo :: "Permission \<Rightarrow> bool"
  SessionHasPermissionToTeam :: "string \<Rightarrow> Permission \<Rightarrow> bool"
  SessionHasPermissionToChannel :: "string \<Rightarrow> Permission \<Rightarrow> bool"
  GetGroupSyncable ::
    "'st \<Rightarrow> string \<Rightarrow> string \<Rightarrow> GroupSyncableType \<Rightarrow> GroupSyncable option \<times> AppError option"
  CreateGroupSyncable ::
    "'st \<Rightarrow> GroupSyncable \<Rightarrow> (GroupSyncable option \<times> AppError option) \<times> 'st"
  UpdateGroupSyncable ::
    "'st \<Rightarrow> GroupSyncable \<Rightarrow> (GroupSyncable option \<times> AppError option) \<times> 'st"
  DeleteGroupSyncable ::
    "'st \<Rightarrow> string \<Rightarrow> string \<Rightarrow> GroupSyncableType
       \<Rightarrow> (GroupSyncable option \<times> AppError option) \<times> 'st"
  GetGroupsPage :: "'st \<Rightarrow> int \<Rightarrow> int \<Rightarrow> GroupSearchOpts \<Rightarrow> 'g list \<times> AppError option"
  GetGroupsByTeam ::
    "'st \<Rightarrow> string \<Rightarrow> int option \<Rightarrow> int option \<Rightarrow> GroupSearchOpts \<Rightarrow> 'g list \<times> AppError option"

text \<open>The calls a handler makes to its collaborators, with their arguments.\<close>

datatype Call =
    CheckPermission Permission
  | CheckTeamPermission string Permission
  | CheckChannelPermission string Permission
  | CallGetGroupSyncable string string GroupSyncableType
  | CallCreateGroupSyncable GroupSyncable
  | CallUpdateGroupSyncable GroupSyncable
  | CallDeleteGroupSyncable string string GroupSyncableType
  | CallGetGroupsPage int int GroupSearchOpts
  | CallGetGroupsByTeam string "int option" "int option" GroupSearchOpts

text \<open>The calls that write to the store of group syncables.\<close>

fun isWrite :: "Call \<Rightarrow> bool" where
  "isWrite (CallCreateGroupSyncable _) = True"
| "isWrite (CallUpdateGroupSyncable _) = True"
| "isWrite (CallDeleteGroupSyncable _ _ _) = True"
| "isWrite _ = False"

text \<open>The request body of link and patch, as \<^verbatim>\<open>ioutil.ReadAll\<close> and \<^verbatim>\<open>json.Unmarshal\<close>
  leave it: a read error with its message, or the patch pointer, which is \<open>None\<close> when
  unmarshalling failed or gave nil.\<close>

datatype Body = ReadFailure string | Payload "GroupSyncablePatch option"

subsection \<open>The handlers\<close>

text \<open>
  The licence gate every handler starts with:
  \<^verbatim>\<open>c.App.License() == nil || !*c.App.License().Features.LDAPGroups\<close> is its failure.
\<close>

definition licensed :: "('st, 'g) App \<Rightarrow> bool" where
  "licensed app = (case License app of None \<Rightarrow> False | Some ldapGroups \<Rightarrow> ldapGroups)"

definition licenseError :: "string \<Rightarrow> Err" where
  "licenseError w = AppErr (NewAppError w ''api.ldap_groups.license_error'' [] 501)"

text \<open>
  How a handler ends on the pair \<^verbatim>\<open>(value, appErr)\<close> an app method returned:
  \<^verbatim>\<open>if appErr != nil { c.Err = appErr; return }\<close>, and the value is written otherwise.
\<close>

definition respond :: "'a \<times> AppError option \<Rightarrow> Err + 'a" where
  "respond r = (case snd r of Some appErr \<Rightarrow> Inl (AppErr appErr) | None \<Rightarrow> Inr (fst r))"

text \<open>
  The switch of linkGroupSyncable (lines 222 to 233): the permission checked for the
  syncable's type, the error set on denial, and the call made.
\<close>

definition linkPermission ::
  "('st, 'g) App \<Rightarrow> string \<Rightarrow> GroupSyncableType \<Rightarrow> Err option \<times> Call list" where
  "linkPermission app syncableID syncableType =
     (case syncableType of
        GroupSyncableTypeTeam \<Rightarrow>
          (if \<not> SessionHasPermissionToTeam app syncableID PERMISSION_MANAGE_TEAM
           then Some (PermissionError PERMISSION_MANAGE_TEAM) else None,
           [CheckTeamPermission syncableID PERMISSION_MANAGE_TEAM])
      | GroupSyncableTypeChannel \<Rightarrow>
          (if \<not> SessionHasPermissionToChannel app syncableID
                  PERMISSION_MANAGE_PUBLIC_CHANNEL_MEMBERS
           then Some (PermissionError PERMISSION_MANAGE_PRIVATE_CHANNEL_MEMBERS) else None,
           [CheckChannelPermission syncableID PERMISSION_MANAGE_PUBLIC_CHANNEL_MEMBERS]))"

text \<open>
  Lines 235 to 261 of linkGroupSyncable: the lookup, then the create or the update.
  A lookup error other than \<^verbatim>\<open>sql.ErrNoRows\<close> ends the handler; after that the branch is
  chosen by \<^verbatim>\<open>groupSyncable == nil\<close>.
\<close>

definition linkPersist ::
  "('st, 'g) App \<Rightarrow> 'st \<Rightarrow> string \<Rightarrow> string \<Rightarrow> GroupSyncableType \<Rightarrow> GroupSyncablePatch
     \<Rightarrow> (Err + GroupSyncable option) \<times> 'st \<times> Call list" where
  "linkPersist app s groupId syncableID syncableType patch =
     (case GetGroupSyncable app s groupId syncableID syncableType of
        (groupSyncable, appErr) \<Rightarrow>
          (case (case appErr of
                   None \<Rightarrow> None
                 | Some e \<Rightarrow> if DetailedError e \<noteq> ErrNoRows then Some e else None) of
             Some e \<Rightarrow>
               (Inl (AppErr e), s, [CallGetGroupSyncable groupId syncableID syncableType])
           | None \<Rightarrow>
               (case groupSyncable of
                  None \<Rightarrow>
                    (let new = Patch \<lparr>GroupId = groupId, SyncableId = syncableID,
                                       Type = syncableType, AutoAdd = False,
                                       CreateAt = 0, DeleteAt = 0\<rparr> patch;
                         r = CreateGroupSyncable app s new
                     in (respond (fst r), snd r,
                         [CallGetGroupSyncable groupId syncableID syncableType,
                          CallCreateGroupSyncable new]))
                | Some found \<Rightarrow>
                    (let upd = Patch (found\<lparr>DeleteAt := 0\<rparr>) patch;
                         r = UpdateGroupSyncable app s upd
                     in (respond (fst r), snd r,
                         [CallGetGroupSyncable groupId syncableID syncableType,
                          CallUpdateGroupSyncable upd])))))"

text \<open>
  linkGroupSyncable (lines 186 to 272). On success the handler writes status 201 and
  the JSON of the record the app returned.
\<close>

definition linkGroupSyncable ::
  "('st, 'g) App \<Rightarrow> 'st \<Rightarrow> Params \<Rightarrow> Body
     \<Rightarrow> (Err + GroupSyncable option) \<times> 'st \<times> Call list" where
  "linkGroupSyncable app s c body =
     (case RequireGroupId app c of Some e \<Rightarrow> (Inl e, s, []) | None \<Rightarrow>
     (case RequireSyncableId app c of Some e \<Rightarrow> (Inl e, s, []) | None \<Rightarrow>
     (case RequireSyncableType app c of Some e \<Rightarrow> (Inl e, s, []) | None \<Rightarrow>
     (case body of
        ReadFailure msg \<Rightarrow>
          (Inl (AppErr (NewAppError ''Api4.createGroupSyncable'' ''api.io_error'' msg 400)),
           s, [])
      | Payload None \<Rightarrow>
          (Inl (InvalidParam (''Group'' @ TypeString app (Params.SyncableType c))), s, [])
      | Payload (Some patch) \<Rightarrow>
          (if \<not> licensed app then (Inl (licenseError ''Api4.createGroupSyncable''), s, [])
           else
             (case linkPermission app (Params.SyncableId c) (Params.SyncableType c) of
                (Some e, checks) \<Rightarrow> (Inl e, s, checks)
              | (None, checks) \<Rightarrow>
                  (case linkPersist app s (Params.GroupId c) (Params.SyncableId c)
                          (Params.SyncableType c) patch of
                     (res, s', calls) \<Rightarrow> (res, s', checks @ calls))))))))"

text \<open>
  patchGroupSyncable (lines 354 to 417). The record of the lookup is patched and given
  to the update; a nil record with a nil error is dereferenced by the patch.
\<close>

definition patchGroupSyncable ::
  "('st, 'g) App \<Rightarrow> 'st \<Rightarrow> Params \<Rightarrow> Body
     \<Rightarrow> (Err + GroupSyncable option) \<times> 'st \<times> Call list" where
  "patchGroupSyncable app s c body =
     (case RequireGroupId app c of Some e \<Rightarrow> (Inl e, s, []) | None \<Rightarrow>
     (case RequireSyncableId app c of Some e \<Rightarrow> (Inl e, s, []) | None \<Rightarrow>
     (case RequireSyncableType app c of Some e \<Rightarrow> (Inl e, s, []) | None \<Rightarrow>
     (case body of
        ReadFailure msg \<Rightarrow>
          (Inl (AppErr (NewAppError ''Api4.patchGroupSyncable'' ''api.io_error'' msg 400)),
           s, [])
      | Payload None \<Rightarrow>
          (Inl (InvalidParam (''Group['' @ TypeString app (Params.SyncableType c) @ '']Patch'')),
           s, [])
      | Payload (Some patch) \<Rightarrow>
          (if \<not> licensed app then (Inl (licenseError ''Api4.patchGroupSyncable''), s, [])
           else if \<not> SessionHasPermissionTo app PERMISSION_MANAGE_SYSTEM
           then (Inl (PermissionError PERMISSION_MANAGE_SYSTEM), s,
                 [CheckPermission PERMISSION_MANAGE_SYSTEM])
           else
             (let get = CallGetGroupSyncable (Params.GroupId c) (Params.SyncableId c)
                          (Params.SyncableType c)
              in (case GetGroupSyncable app s (Params.GroupId c) (Params.SyncableId c)
                         (Params.SyncableType c) of
                    (_, Some appErr) \<Rightarrow>
                      (Inl (AppErr appErr), s, [CheckPermission PERMISSION_MANAGE_SYSTEM, get])
                  | (None, None) \<Rightarrow>
                      (Inl NilDereference, s, [CheckPermission PERMISSION_MANAGE_SYSTEM, get])
                  | (Some groupSyncable, None) \<Rightarrow>
                      (let upd = Patch groupSyncable patch;
                           r = UpdateGroupSyncable app s upd
                       in (respond (fst r), snd r,
                           [CheckPermission PERMISSION_MANAGE_SYSTEM, get,
                            CallUpdateGroupSyncable upd])))))))))"

text \<open>
  unlinkGroupSyncable (lines 419 to 454). The record the delete returns is dropped;
  on success the handler writes \<^verbatim>\<open>ReturnStatusOK\<close>.
\<close>

definition unlinkGroupSyncable ::
  "('st, 'g) App \<Rightarrow> 'st \<Rightarrow> Params \<Rightarrow> (Err + unit) \<times> 'st \<times> Call list" where
  "unlinkGroupSyncable app s c =
     (case RequireGroupId app c of Some e \<Rightarrow> (Inl e, s, []) | None \<Rightarrow>
     (case RequireSyncableId app c of Some e \<Rightarrow> (Inl e, s, []) | None \<Rightarrow>
     (case RequireSyncableType app c of Some e \<Rightarrow> (Inl e, s, []) | None \<Rightarrow>
     (if \<not> licensed app then (Inl (licenseError ''Api4.unlinkGroupSyncable''), s, [])
      else if \<not> SessionHasPermissionTo app PERMISSION_MANAGE_SYSTEM
      then (Inl (PermissionError PERMISSION_MANAGE_SYSTEM), s,
            [CheckPermission PERMISSION_MANAGE_SYSTEM])
      else
        (let r = DeleteGroupSyncable app s (Params.GroupId c) (Params.SyncableId c)
                   (Params.SyncableType c)
         in (respond ((), snd (fst r)), snd r,
             [CheckPermission PERMISSION_MANAGE_SYSTEM,
              CallDeleteGroupSyncable (Params.GroupId c) (Params.SyncableId c)
                (Params.SyncableType c)]))))))"

text \<open>
  The search options getGroups builds (lines 79 to 93) once the team permission, if it
  is checked, has been granted.
\<close>

definition getGroupsOpts :: "Params \<Rightarrow> GroupSearchOpts" where
  "getGroupsOpts c =
     \<lparr>Q = (if length (Params.Q c) > 1 then Some (Params.Q c) else None),
      NotAssociatedToTeam =
        (if length (Params.NotAssociatedToTeam c) = 26
         then Some (Params.NotAssociatedToTeam c) else None),
      IncludeMemberCount = (if Params.IncludeMemberCount c then True else False)\<rparr>"

text \<open>getGroups (lines 71 to 108). The handler only reads the store.\<close>

definition getGroups :: "('st, 'g) App \<Rightarrow> 'st \<Rightarrow> Params \<Rightarrow> (Err + 'g list) \<times> Call list" where
  "getGroups app s c =
     (if \<not> licensed app then (Inl (licenseError ''Api4.getGroups''), [])
      else
        (let checks =
               (if length (Params.NotAssociatedToTeam c) = 26
                then [CheckTeamPermission (Params.NotAssociatedToTeam c) PERMISSION_MANAGE_TEAM]
                else [])
         in if length (Params.NotAssociatedToTeam c) = 26
               \<and> \<not> SessionHasPermissionToTeam app (Params.NotAssociatedToTeam c)
                     PERMISSION_MANAGE_TEAM
            then (Inl (PermissionError PERMISSION_MANAGE_TEAM), checks)
            else (respond (GetGroupsPage app s (Page c) (PerPage c) (getGroupsOpts c)),
                  checks @ [CallGetGroupsPage (Page c) (PerPage c) (getGroupsOpts c)])))"

text \<open>The search options getGroupsByTeam builds (lines 543 to 549).\<close>

definition getGroupsByTeamOpts :: "Params \<Rightarrow> GroupSearchOpts" where
  "getGroupsByTeamOpts c =
     \<lparr>Q = (if length (Params.Q c) > 1 then Some (Params.Q c) else None),
      NotAssociatedToTeam = None,
      IncludeMemberCount = (if Params.IncludeMemberCount c then True else False)\<rparr>"

text \<open>
  The page arguments of getGroupsByTeam (lines 551 to 555): nil pointers when
  \<^verbatim>\<open>c.Params.Paginate != nil && !*c.Params.Paginate\<close>, the addresses of
  \<^verbatim>\<open>c.Params.Page\<close> and \<^verbatim>\<open>c.Params.PerPage\<close> otherwise.
\<close>

definition pageArgs :: "Params \<Rightarrow> int option \<times> int option" where
  "pageArgs c =
     (case Paginate c of
        Some False \<Rightarrow> (None, None)
      | _ \<Rightarrow> (Some (Page c), Some (PerPage c)))"

text \<open>getGroupsByTeam (lines 524 to 569). The handler only reads the store.\<close>

definition getGroupsByTeam ::
  "('st, 'g) App \<Rightarrow> 'st \<Rightarrow> Params \<Rightarrow> (Err + 'g list) \<times> Call list" where
  "getGroupsByTeam app s c =
     (case RequireTeamId app c of Some e \<Rightarrow> (Inl e, []) | None \<Rightarrow>
     (if \<not> licensed app then (Inl (licenseError ''Api4.getGroupsByTeam''), [])
      else if \<not> SessionHasPermissionToTeam app (TeamId c) PERMISSION_MANAGE_TEAM
      then (Inl (PermissionError PERMISSION_MANAGE_TEAM),
            [CheckTeamPermission (TeamId c) PERMISSION_MANAGE_TEAM])
      else
        (case pageArgs c of
           (page, perPage) \<Rightarrow>
             (respond (GetGroupsByTeam app s (TeamId c) page perPage (getGroupsByTeamOpts c)),
              [CheckTeamPermission (TeamId c) PERMISSION_MANAGE_TEAM,
               CallGetGroupsByTeam (TeamId c) page perPage (getGroupsByTeamOpts c)]))))"

subsection \<open>The store behind the app\<close>

text \<open>
  Modelled from the spec: the SyncableStore and the GroupStore behind \<^verbatim>\<open>c.App\<close> are
  not in group.go. The store keeps at most one GroupSyncable per triple (group id,
  syncable id, type); a record with a non-zero \<open>DeleteAt\<close> is a tombstone and stays in
  the store. \<open>now\<close> is the current time, \<open>fault\<close> an upstream persistence failure that
  every store call reports while it lasts, and \<open>teamGroups\<close> gives the groups of a team
  that match the search options, in the store's order.
\<close>

record 'g Store =
  syncables :: "string \<times> string \<times> GroupSyncableType \<Rightarrow> GroupSyncable option"
  now :: int
  fault :: "AppError option"
  teamGroups :: "string \<Rightarrow> GroupSearchOpts \<Rightarrow> 'g list"
  allGroups :: "GroupSearchOpts \<Rightarrow> 'g list"

text \<open>
  Modelled from the spec: the store's not-found error, which the handlers recognise by
  its detail \<^verbatim>\<open>sql.ErrNoRows.Error()\<close>, and the error of a create that would break
  the uniqueness of the triple.
\<close>

definition notFound :: AppError where
  "notFound = NewAppError ''SyncableStore'' ''not_found'' ErrNoRows 404"

definition alreadyExists :: AppError where
  "alreadyExists = NewAppError ''SyncableStore'' ''already_exists'' ''unique constraint'' 500"

definition keyOf :: "GroupSyncable \<Rightarrow> string \<times> string \<times> GroupSyncableType" where
  "keyOf r = (GroupId r, SyncableId r, Type r)"

text \<open>
  Modelled from the spec: Find returns the record of the triple, tombstoned ones
  included, the not-found error, or another error.
\<close>

definition storeFind ::
  "'g Store \<Rightarrow> string \<Rightarrow> string \<Rightarrow> GroupSyncableType \<Rightarrow> GroupSyncable option \<times> AppError option"
  where
  "storeFind st g sid t =
     (case fault st of
        Some e \<Rightarrow> (None, Some e)
      | None \<Rightarrow>
          (case syncables st (g, sid, t) of
             None \<Rightarrow> (None, Some notFound)
           | Some r \<Rightarrow> (Some r, None)))"

text \<open>
  Modelled from the spec: Create stores a record for a triple that has none and returns
  it with a freshly assigned creation timestamp.
\<close>

definition storeCreate ::
  "'g Store \<Rightarrow> GroupSyncable \<Rightarrow> (GroupSyncable option \<times> AppError option) \<times> 'g Store" where
  "storeCreate st r =
     (case fault st of
        Some e \<Rightarrow> ((None, Some e), st)
      | None \<Rightarrow>
          (case syncables st (keyOf r) of
             Some _ \<Rightarrow> ((None, Some alreadyExists), st)
           | None \<Rightarrow>
               (let r' = r\<lparr>CreateAt := now st\<rparr>
                in ((Some r', None), st\<lparr>syncables := (syncables st)(keyOf r \<mapsto> r')\<rparr>))))"

text \<open>
  Modelled from the spec: Update replaces the record of the triple by the one given and
  returns it; it reports not-found when the triple has no record.
\<close>

definition storeUpdate ::
  "'g Store \<Rightarrow> GroupSyncable \<Rightarrow> (GroupSyncable option \<times> AppError option) \<times> 'g Store" where
  "storeUpdate st r =
     (case fault st of
        Some e \<Rightarrow> ((None, Some e), st)
      | None \<Rightarrow>
          (case syncables st (keyOf r) of
             None \<Rightarrow> ((None, Some notFound), st)
           | Some _ \<Rightarrow> ((Some r, None), st\<lparr>syncables := (syncables st)(keyOf r \<mapsto> r)\<rparr>)))"

text \<open>
  Modelled from the spec: Delete tombstones the matching record by setting \<open>DeleteAt\<close>
  to the current time, and reports not-found for a triple with no record or with a
  record that is already a tombstone.
\<close>

definition storeDelete ::
  "'g Store \<Rightarrow> string \<Rightarrow> string \<Rightarrow> GroupSyncableType
     \<Rightarrow> (GroupSyncable option \<times> AppError option) \<times> 'g Store" where
  "storeDelete st g sid t =
     (case fault st of
        Some e \<Rightarrow> ((None, Some e), st)
      | None \<Rightarrow>
          (case syncables st (g, sid, t) of
             None \<Rightarrow> ((None, Some notFound), st)
           | Some r \<Rightarrow>
               if DeleteAt r \<noteq> 0 then ((None, Some notFound), st)
               else
                 (let r' = r\<lparr>DeleteAt := now st\<rparr>
                  in ((Some r', None), st\<lparr>syncables := (syncables st)((g, sid, t) \<mapsto> r')\<rparr>))))"

text \<open>
  Modelled from the spec: a page is the slice of the matching sequence that the
  zero-based page number and the page size bound; nil page arguments bypass the
  slicing and give the full sequence.
\<close>

definition pageOf :: "int option \<Rightarrow> int option \<Rightarrow> 'a list \<Rightarrow> 'a list" where
  "pageOf page perPage xs =
     (case (page, perPage) of
        (Some p, Some k) \<Rightarrow> take (nat k) (drop (nat p * nat k) xs)
      | _ \<Rightarrow> xs)"

text \<open>
  Modelled from the spec: the groups of a team that match the search options, paged;
  a store failure is reported as it is.
\<close>

definition storeGroupsByTeam ::
  "'g Store \<Rightarrow> string \<Rightarrow> int option \<Rightarrow> int option \<Rightarrow> GroupSearchOpts
     \<Rightarrow> 'g list \<times> AppError option" where
  "storeGroupsByTeam st teamId page perPage opts =
     (case fault st of
        Some e \<Rightarrow> ([], Some e)
      | None \<Rightarrow> (pageOf page perPage (teamGroups st teamId opts), None))"

text \<open>Modelled from the spec: the page of all groups that match the search options.\<close>

definition storeGroupsPage ::
  "'g Store \<Rightarrow> int \<Rightarrow> int \<Rightarrow> GroupSearchOpts \<Rightarrow> 'g list \<times> AppError option" where
  "storeGroupsPage st page perPage opts =
     (case fault st of
        Some e \<Rightarrow> ([], Some e)
      | None \<Rightarrow> (pageOf (Some page) (Some perPage) (allGroups st opts), None))"

text \<open>
  Modelled from the spec: an identifier is malformed unless it has 26 characters, the
  test getGroups itself applies to a team id; the type of a syncable is one of Team and
  Channel. The app over the store, for a licence flag and an access policy.
\<close>

definition requireId :: "string \<Rightarrow> string \<Rightarrow> Err option" where
  "requireId name v = (if length v = 26 then None else Some (InvalidUrlParam name))"

definition storeApp ::
  "bool option \<Rightarrow> (Permission \<Rightarrow> bool) \<Rightarrow> (string \<Rightarrow> Permission \<Rightarrow> bool)
     \<Rightarrow> (string \<Rightarrow> Permission \<Rightarrow> bool) \<Rightarrow> ('g Store, 'g) App" where
  "storeApp lic sys team chan =
     \<lparr>RequireGroupId = (\<lambda>c. requireId ''group_id'' (Params.GroupId c)),
      RequireSyncableId = (\<lambda>c. requireId ''syncable_id'' (Params.SyncableId c)),
      RequireSyncableType = (\<lambda>c. None),
      RequireTeamId = (\<lambda>c. requireId ''team_id'' (TeamId c)),
      TypeString =
        (\<lambda>t. case t of GroupSyncableTypeTeam \<Rightarrow> ''Team'' | GroupSyncableTypeChannel \<Rightarrow> ''Channel''),
      License = lic,
      SessionHasPermissionTo = sys,
      SessionHasPermissionToTeam = team,
      SessionHasPermissionToChannel = chan,
      GetGroupSyncable = storeFind,
      CreateGroupSyncable = storeCreate,
      UpdateGroupSyncable = storeUpdate,
      DeleteGroupSyncable = storeDelete,
      GetGroupsPage = storeGroupsPage,
      GetGroupsByTeam = storeGroupsByTeam\<rparr>"

subsection \<open>A concrete request and store\<close>

text \<open>
  The inputs the properties below are run on: a request with well-formed identifiers,
  stores with no record, a tombstone, an active record and a persistence failure, and
  apps over the store that grant every permission, deny every permission, or lack the
  licence.
\<close>

definition id26 :: "char \<Rightarrow> string" where
  "id26 ch = replicate 26 ch"

definition request :: "GroupSyncableType \<Rightarrow> Params" where
  "request t =
     \<lparr>Params.GroupId = id26 (CHR ''g''), Params.SyncableId = id26 (CHR ''s''),
      SyncableType = t, TeamId = id26 (CHR ''t''), Params.Q = [],
      Params.NotAssociatedToTeam = [], Params.IncludeMemberCount = False,
      Page = 0, PerPage = 60, Paginate = None\<rparr>"

definition emptyStore :: "string Store" where
  "emptyStore =
     \<lparr>syncables = (\<lambda>k. None), now = 1000, fault = None,
      teamGroups = (\<lambda>t opts. [''g1'', ''g2'', ''g3'']),
      allGroups =
        (\<lambda>opts. if NotAssociatedToTeam opts = None then [''g1'', ''g2'', ''g3'', ''g4'']
                else [''g4''])\<rparr>"

definition grantAll :: "(string Store, string) App" where
  "grantAll = storeApp (Some True) (\<lambda>p. True) (\<lambda>t p. True) (\<lambda>ch p. True)"

definition tombstone :: GroupSyncable where
  "tombstone =
     \<lparr>GroupId = id26 (CHR ''g''), SyncableId = id26 (CHR ''s''),
      Type = GroupSyncableTypeTeam, AutoAdd = True, CreateAt = 1000, DeleteAt = 2000\<rparr>"

definition tombstoneStore :: "string Store" where
  "tombstoneStore = emptyStore\<lparr>syncables := (syncables emptyStore)(keyOf tombstone \<mapsto> tombstone)\<rparr>"

definition faultyStore :: "string Store" where
  "faultyStore =
     emptyStore\<lparr>fault := Some (NewAppError ''SyncableStore'' ''store_failure'' ''connection lost'' 500)\<rparr>"

definition active :: GroupSyncable where
  "active = tombstone\<lparr>DeleteAt := 0\<rparr>"

definition activeStore :: "string Store" where
  "activeStore = emptyStore\<lparr>syncables := (syncables emptyStore)(keyOf active \<mapsto> active)\<rparr>"

definition denyAll :: "(string Store, string) App" where
  "denyAll = storeApp (Some True) (\<lambda>p. False) (\<lambda>t p. False) (\<lambda>ch p. False)"

definition unlicensed :: "(string Store, string) App" where
  "unlicensed = storeApp (Some False) (\<lambda>p. True) (\<lambda>t p. True) (\<lambda>ch p. True)"

definition autoAdd :: "bool \<Rightarrow> Body" where
  "autoAdd b = Payload (Some \<lparr>PatchAutoAdd = Some b\<rparr>)"

subsection \<open>Gates and traces\<close>

text \<open>The checks of the URL parameters that link, patch and unlink start with.\<close>

definition requestOk :: "('st, 'g) App \<Rightarrow> Params \<Rightarrow> bool" where
  "requestOk app c =
     (RequireGroupId app c = None \<and> RequireSyncableId app c = None
      \<and> RequireSyncableType app c = None)"

text \<open>The permission gate of link is passed: the check made for the type succeeds.\<close>

definition linkGranted :: "('st, 'g) App \<Rightarrow> Params \<Rightarrow> bool" where
  "linkGranted app c =
     (case Params.SyncableType c of
        GroupSyncableTypeTeam \<Rightarrow>
          SessionHasPermissionToTeam app (Params.SyncableId c) PERMISSION_MANAGE_TEAM
      | GroupSyncableTypeChannel \<Rightarrow>
          SessionHasPermissionToChannel app (Params.SyncableId c)
            PERMISSION_MANAGE_PUBLIC_CHANNEL_MEMBERS)"

text \<open>The permission call link makes for the type of the syncable.\<close>

definition linkCheck :: "Params \<Rightarrow> Call" where
  "linkCheck c =
     (case Params.SyncableType c of
        GroupSyncableTypeTeam \<Rightarrow> CheckTeamPermission (Params.SyncableId c) PERMISSION_MANAGE_TEAM
      | GroupSyncableTypeChannel \<Rightarrow>
          CheckChannelPermission (Params.SyncableId c) PERMISSION_MANAGE_PUBLIC_CHANNEL_MEMBERS)"

text \<open>The lookup call of link and patch, and the record link builds when none is found.\<close>

definition lookupCall :: "Params \<Rightarrow> Call" where
  "lookupCall c =
     CallGetGroupSyncable (Params.GroupId c) (Params.SyncableId c) (Params.SyncableType c)"

definition lookup :: "('st, 'g) App \<Rightarrow> 'st \<Rightarrow> Params \<Rightarrow> GroupSyncable option \<times> AppError option" where
  "lookup app s c =
     GetGroupSyncable app s (Params.GroupId c) (Params.SyncableId c) (Params.SyncableType c)"

definition fresh :: "Params \<Rightarrow> GroupSyncable" where
  "fresh c =
     \<lparr>GroupId = Params.GroupId c, SyncableId = Params.SyncableId c,
      Type = Params.SyncableType c, AutoAdd = False, CreateAt = 0, DeleteAt = 0\<rparr>"

text \<open>The groups a listing handler wrote; none when it ended with an error.\<close>

definition groupsOf :: "Err + 'g list \<Rightarrow> 'g list" where
  "groupsOf res = (case res of Inl _ \<Rightarrow> [] | Inr groups \<Rightarrow> groups)"

text \<open>
  The paginated traversal of a team's groups: the pages 0 to \<open>n - 1\<close> of size \<open>perPage\<close>,
  each asked of getGroupsByTeam, concatenated in page order.
\<close>

definition traversal :: "('st, 'g) App \<Rightarrow> 'st \<Rightarrow> Params \<Rightarrow> nat \<Rightarrow> nat \<Rightarrow> 'g list" where
  "traversal app s c perPage n =
     concat (map (\<lambda>i. groupsOf (fst (getGroupsByTeam app s (c\<lparr>Page := int i, PerPage := int perPage\<rparr>))))
               [0..<n])"

text \<open>The state of the store after the writes of a list of calls, made in order.\<close>

fun replay :: "('st, 'g) App \<Rightarrow> 'st \<Rightarrow> Call list \<Rightarrow> 'st" where
  "replay app s [] = s"
| "replay app s (CallCreateGroupSyncable r # calls) =
     replay app (snd (CreateGroupSyncable app s r)) calls"
| "replay app s (CallUpdateGroupSyncable r # calls) =
     replay app (snd (UpdateGroupSyncable app s r)) calls"
| "replay app s (CallDeleteGroupSyncable g sid t # calls) =
     replay app (snd (DeleteGroupSyncable app s g sid t)) calls"
| "replay app s (_ # calls) = replay app s calls"


section \<open>Properties of the handlers\<close>

subsection \<open>Shared facts\<close>

lemma linkPermission_granted:
  "linkGranted app c \<Longrightarrow>
   linkPermission app (Params.SyncableId c) (Params.SyncableType c) = (None, [linkCheck c])"
  by (cases "Params.SyncableType c") (simp_all add: linkGranted_def linkPermission_def linkCheck_def)

lemma link_gates:
  assumes "requestOk app c" "licensed app" "linkGranted app c"
  shows "linkGroupSyncable app s c (Payload (Some patch)) =
     (case linkPersist app s (Params.GroupId c) (Params.SyncableId c) (Params.SyncableType c) patch of
        (res, s', calls) \<Rightarrow> (res, s', linkCheck c # calls))"
  using assms
  by (simp add: linkGroupSyncable_def requestOk_def linkPermission_granted split: prod.splits)

lemma requestOk_grantAll: "requestOk grantAll (request t)"
  by (simp add: requestOk_def grantAll_def storeApp_def request_def requireId_def id26_def)

lemma licensed_grantAll: "licensed grantAll"
  by (simp add: licensed_def grantAll_def storeApp_def)

lemma linkGranted_grantAll: "linkGranted grantAll (request t)"
  by (cases t) (simp_all add: linkGranted_def grantAll_def storeApp_def request_def)

lemma lookup_emptyStore: "lookup grantAll emptyStore (request t) = (None, Some notFound)"
  by (simp add: lookup_def grantAll_def storeApp_def storeFind_def emptyStore_def)

lemma lookup_tombstoneStore:
  "lookup grantAll tombstoneStore (request GroupSyncableTypeTeam) = (Some tombstone, None)"
  by (simp add: lookup_def grantAll_def storeApp_def storeFind_def emptyStore_def
      tombstoneStore_def request_def keyOf_def tombstone_def)

lemmas concrete_defs =
  grantAll_def denyAll_def unlicensed_def storeApp_def request_def requireId_def id26_def
  emptyStore_def tombstoneStore_def faultyStore_def tombstone_def autoAdd_def
  active_def activeStore_def
  storeFind_def storeCreate_def storeUpdate_def storeDelete_def keyOf_def
  notFound_def alreadyExists_def NewAppError_def ErrNoRows_def

lemmas handler_defs =
  linkGroupSyncable_def linkPermission_def linkPersist_def licensed_def licenseError_def
  respond_def Patch_def requestOk_def linkGranted_def linkCheck_def lookup_def
  lookupCall_def fresh_def

subsection \<open>Link: create, resurrect or update\<close>

text \<open>
  Claim C1. A link request that passes the parameter checks, the licence gate and the
  permission gate looks the triple up. When the lookup does not end the handler and
  gives no record, the record with the identity of the triple is built, patched and
  given to \<open>CreateGroupSyncable\<close>; when it gives a record, tombstoned or not, its
  \<open>DeleteAt\<close> is set to 0, it is patched and given to \<open>UpdateGroupSyncable\<close>. In both
  cases exactly that one write is made and the response is the record the write
  returned.
\<close>

theorem link_branches:
  assumes ok: "requestOk app c" and lic: "licensed app" and perm: "linkGranted app c"
    and get: "lookup app s c = (found, appErr)"
    and err: "appErr = None \<or> (\<exists>e. appErr = Some e \<and> DetailedError e = ErrNoRows)"
  shows "(found = None \<longrightarrow>
            (let new = Patch (fresh c) patch;
                 persisted = CreateGroupSyncable app s new
             in GroupId new = Params.GroupId c \<and> SyncableId new = Params.SyncableId c
                \<and> Type new = Params.SyncableType c
                \<and> linkGroupSyncable app s c (Payload (Some patch)) =
                    (respond (fst persisted), snd persisted,
                     [linkCheck c, lookupCall c, CallCreateGroupSyncable new])))
       \<and> (\<forall>r. found = Some r \<longrightarrow>
            (let upd = Patch (r\<lparr>DeleteAt := 0\<rparr>) patch;
                 persisted = UpdateGroupSyncable app s upd
             in DeleteAt upd = 0
                \<and> linkGroupSyncable app s c (Payload (Some patch)) =
                    (respond (fst persisted), snd persisted,
                     [linkCheck c, lookupCall c, CallUpdateGroupSyncable upd])))"
  using get err
  by (auto simp: link_gates[OF ok lic perm] linkPersist_def Patch_def Let_def fresh_def
      lookup_def lookupCall_def split: option.splits)

theorem link_branches_witness:
  "requestOk grantAll (request GroupSyncableTypeTeam) \<and> licensed grantAll
   \<and> linkGranted grantAll (request GroupSyncableTypeTeam)
   \<and> lookup grantAll emptyStore (request GroupSyncableTypeTeam) = (None, Some notFound)
   \<and> DetailedError notFound = ErrNoRows
   \<and> fst (linkGroupSyncable grantAll emptyStore (request GroupSyncableTypeTeam)
            (Payload (Some \<lparr>PatchAutoAdd = Some True\<rparr>))) =
       Inr (Some \<lparr>GroupId = id26 (CHR ''g''), SyncableId = id26 (CHR ''s''),
                  Type = GroupSyncableTypeTeam, AutoAdd = True, CreateAt = 1000, DeleteAt = 0\<rparr>)
   \<and> lookup grantAll tombstoneStore (request GroupSyncableTypeTeam) = (Some tombstone, None)
   \<and> linkGroupSyncable grantAll tombstoneStore (request GroupSyncableTypeTeam)
            (Payload (Some \<lparr>PatchAutoAdd = Some False\<rparr>)) =
       (Inr (Some (tombstone\<lparr>DeleteAt := 0, AutoAdd := False\<rparr>)),
        snd (storeUpdate tombstoneStore (tombstone\<lparr>DeleteAt := 0, AutoAdd := False\<rparr>)),
        [CheckTeamPermission (id26 (CHR ''s'')) PERMISSION_MANAGE_TEAM,
         CallGetGroupSyncable (id26 (CHR ''g'')) (id26 (CHR ''s'')) GroupSyncableTypeTeam,
         CallUpdateGroupSyncable (tombstone\<lparr>DeleteAt := 0, AutoAdd := False\<rparr>)])"
proof -
  have nf: "DetailedError notFound = ErrNoRows"
    by (simp add: notFound_def NewAppError_def)
  have e1: "Some notFound = None \<or> (\<exists>e. Some notFound = Some e \<and> DetailedError e = ErrNoRows)"
    using nf by simp
  note c = link_branches[OF requestOk_grantAll licensed_grantAll linkGranted_grantAll
      lookup_emptyStore e1, of GroupSyncableTypeTeam "\<lparr>PatchAutoAdd = Some True\<rparr>"]
  note u = link_branches[OF requestOk_grantAll licensed_grantAll linkGranted_grantAll
      lookup_tombstoneStore, of "\<lparr>PatchAutoAdd = Some False\<rparr>"]
  have created: "fst (linkGroupSyncable grantAll emptyStore (request GroupSyncableTypeTeam)
            (Payload (Some \<lparr>PatchAutoAdd = Some True\<rparr>))) =
       Inr (Some \<lparr>GroupId = id26 (CHR ''g''), SyncableId = id26 (CHR ''s''),
                  Type = GroupSyncableTypeTeam, AutoAdd = True, CreateAt = 1000, DeleteAt = 0\<rparr>)"
    using c
    by (simp add: Let_def Patch_def fresh_def request_def grantAll_def storeApp_def
        storeCreate_def emptyStore_def keyOf_def respond_def)
  have updated: "linkGroupSyncable grantAll tombstoneStore (request GroupSyncableTypeTeam)
            (Payload (Some \<lparr>PatchAutoAdd = Some False\<rparr>)) =
       (Inr (Some (tombstone\<lparr>DeleteAt := 0, AutoAdd := False\<rparr>)),
        snd (storeUpdate tombstoneStore (tombstone\<lparr>DeleteAt := 0, AutoAdd := False\<rparr>)),
        [CheckTeamPermission (id26 (CHR ''s'')) PERMISSION_MANAGE_TEAM,
         CallGetGroupSyncable (id26 (CHR ''g'')) (id26 (CHR ''s'')) GroupSyncableTypeTeam,
         CallUpdateGroupSyncable (tombstone\<lparr>DeleteAt := 0, AutoAdd := False\<rparr>)])"
    using u
    by (simp add: Let_def Patch_def request_def grantAll_def storeApp_def
        storeUpdate_def emptyStore_def tombstoneStore_def keyOf_def respond_def
        linkCheck_def lookupCall_def tombstone_def)
  show ?thesis
    using requestOk_grantAll licensed_grantAll linkGranted_grantAll lookup_emptyStore nf
      lookup_tombstoneStore created updated
    by simp
qed

lemma linkPermission_denied:
  "\<not> linkGranted app c \<Longrightarrow>
   \<exists>p. linkPermission app (Params.SyncableId c) (Params.SyncableType c) =
         (Some (PermissionError p), [linkCheck c])"
  by (cases "Params.SyncableType c") (simp_all add: linkGranted_def linkPermission_def linkCheck_def)

lemma linkPersist_cases:
  assumes "linkPersist app s (Params.GroupId c) (Params.SyncableId c) (Params.SyncableType c) patch
             = (res, s', calls)"
  shows "(\<exists>x e. lookup app s c = (x, Some e) \<and> DetailedError e \<noteq> ErrNoRows
            \<and> res = Inl (AppErr e) \<and> s' = s \<and> calls = [lookupCall c])
       \<or> (\<exists>r. calls = [lookupCall c, CallCreateGroupSyncable r]
            \<and> res = respond (fst (CreateGroupSyncable app s r))
            \<and> s' = snd (CreateGroupSyncable app s r)
            \<and> (\<forall>x e. lookup app s c = (x, Some e) \<longrightarrow> DetailedError e = ErrNoRows))
       \<or> (\<exists>r. calls = [lookupCall c, CallUpdateGroupSyncable r]
            \<and> res = respond (fst (UpdateGroupSyncable app s r))
            \<and> s' = snd (UpdateGroupSyncable app s r)
            \<and> (\<forall>x e. lookup app s c = (x, Some e) \<longrightarrow> DetailedError e = ErrNoRows))"
  using assms
  by (auto simp: linkPersist_def lookup_def lookupCall_def Let_def
      split: prod.splits option.splits if_splits)

lemma link_cases:
  assumes "linkGroupSyncable app s c body = (res, s', calls)"
  shows "(\<exists>e. res = Inl e \<and> s' = s \<and> calls = [])
       \<or> (licensed app \<and> \<not> linkGranted app c \<and> (\<exists>e. res = Inl e) \<and> s' = s \<and> calls = [linkCheck c])
       \<or> (licensed app \<and> linkGranted app c
           \<and> (\<exists>patch calls'. calls = linkCheck c # calls'
                \<and> linkPersist app s (Params.GroupId c) (Params.SyncableId c)
                     (Params.SyncableType c) patch = (res, s', calls')))"
proof (cases "linkGranted app c")
  case True
  show ?thesis
    using assms True linkPermission_granted[OF True]
    by (auto simp: linkGroupSyncable_def split: option.splits Body.splits if_splits prod.splits)
next
  case False
  from linkPermission_denied[OF False] obtain p where
    "linkPermission app (Params.SyncableId c) (Params.SyncableType c) =
         (Some (PermissionError p), [linkCheck c])" ..
  then show ?thesis
    using assms False
    by (auto simp: linkGroupSyncable_def split: option.splits Body.splits if_splits prod.splits)
qed

lemma isWrite_linkCheck: "\<not> isWrite (linkCheck c)"
  by (cases "Params.SyncableType c") (simp_all add: linkCheck_def)

lemma isWrite_lookupCall: "\<not> isWrite (lookupCall c)"
  by (simp add: lookupCall_def)

lemma replay_linkCheck: "replay app s (linkCheck c # calls) = replay app s calls"
  by (cases "Params.SyncableType c") (simp_all add: linkCheck_def)

lemma replay_lookupCall: "replay app s (lookupCall c # calls) = replay app s calls"
  by (simp add: lookupCall_def)

lemma respond_Inr: "respond r = Inr v \<Longrightarrow> snd r = None \<and> v = fst r"
  by (cases "snd r") (simp_all add: respond_def)

subsection \<open>Link: writes to the store\<close>

text \<open>
  Claim C5. Every run of the link handler makes at most one write to the store, and the
  store's state afterwards is the state those writes leave. A successful run makes
  exactly one write, a create or an update. When the licence gate fails, the permission
  for the syncable's type is denied, or the lookup fails with an error other than
  \<^verbatim>\<open>sql.ErrNoRows\<close>, no write is made and the state is unchanged.
\<close>

theorem link_writes:
  "(case linkGroupSyncable app s c body of
      (res, s', calls) \<Rightarrow>
        length (filter isWrite calls) \<le> 1
        \<and> s' = replay app s calls
        \<and> ((\<exists>v. res = Inr v) \<longrightarrow>
              (\<exists>r. filter isWrite calls = [CallCreateGroupSyncable r]
                    \<or> filter isWrite calls = [CallUpdateGroupSyncable r]))
        \<and> ((\<not> licensed app \<or> \<not> linkGranted app c
             \<or> (\<exists>x e. lookup app s c = (x, Some e) \<and> DetailedError e \<noteq> ErrNoRows)) \<longrightarrow>
              filter isWrite calls = [] \<and> s' = s))"
proof -
  obtain res s' calls where l: "linkGroupSyncable app s c body = (res, s', calls)"
    by (cases "linkGroupSyncable app s c body") auto
  from link_cases[OF l] consider
    (early) e where "res = Inl e" "s' = s" "calls = []"
    | (denied) e where "licensed app" "\<not> linkGranted app c" "res = Inl e" "s' = s"
        "calls = [linkCheck c]"
    | (persist) patch calls' where "licensed app" "linkGranted app c"
        "calls = linkCheck c # calls'"
        "linkPersist app s (Params.GroupId c) (Params.SyncableId c)
           (Params.SyncableType c) patch = (res, s', calls')"
    by blast
  then have "length (filter isWrite calls) \<le> 1
        \<and> s' = replay app s calls
        \<and> ((\<exists>v. res = Inr v) \<longrightarrow>
              (\<exists>r. filter isWrite calls = [CallCreateGroupSyncable r]
                    \<or> filter isWrite calls = [CallUpdateGroupSyncable r]))
        \<and> ((\<not> licensed app \<or> \<not> linkGranted app c
             \<or> (\<exists>x e. lookup app s c = (x, Some e) \<and> DetailedError e \<noteq> ErrNoRows)) \<longrightarrow>
              filter isWrite calls = [] \<and> s' = s)"
  proof cases
    case early
    then show ?thesis by simp
  next
    case denied
    then show ?thesis by (simp add: isWrite_linkCheck replay_linkCheck)
  next
    case persist
    from linkPersist_cases[OF persist(4)] show ?thesis
      using persist(1-3)
      by (elim disjE exE conjE)
         (simp_all add: isWrite_linkCheck isWrite_lookupCall replay_linkCheck replay_lookupCall)
  qed
  then show ?thesis unfolding l prod.case .
qed

theorem link_writes_witness:
  "(case linkGroupSyncable grantAll emptyStore (request GroupSyncableTypeTeam) (autoAdd True) of
      (res, s', calls) \<Rightarrow>
        (\<exists>v. res = Inr v) \<and> length (filter isWrite calls) = 1
        \<and> s' = replay grantAll emptyStore calls)
   \<and> \<not> licensed unlicensed
   \<and> (case linkGroupSyncable unlicensed emptyStore (request GroupSyncableTypeTeam) (autoAdd True) of
        (res, s', calls) \<Rightarrow> filter isWrite calls = [] \<and> s' = emptyStore)
   \<and> \<not> linkGranted denyAll (request GroupSyncableTypeChannel)
   \<and> (case linkGroupSyncable denyAll emptyStore (request GroupSyncableTypeChannel) (autoAdd True) of
        (res, s', calls) \<Rightarrow> filter isWrite calls = [] \<and> s' = emptyStore)
   \<and> (case linkGroupSyncable grantAll faultyStore (request GroupSyncableTypeTeam) (autoAdd True) of
        (res, s', calls) \<Rightarrow> filter isWrite calls = [] \<and> s' = faultyStore)"
proof -
  have a: "case linkGroupSyncable grantAll emptyStore (request GroupSyncableTypeTeam) (autoAdd True) of
      (res, s', calls) \<Rightarrow>
        (\<exists>v. res = Inr v) \<and> length (filter isWrite calls) = 1
        \<and> s' = replay grantAll emptyStore calls"
    using link_writes[of grantAll emptyStore "request GroupSyncableTypeTeam" "autoAdd True"]
    by (simp add: handler_defs concrete_defs Let_def)
  have nl: "\<not> licensed unlicensed"
    by (simp add: handler_defs concrete_defs)
  have b: "case linkGroupSyncable unlicensed emptyStore (request GroupSyncableTypeTeam) (autoAdd True) of
        (res, s', calls) \<Rightarrow> filter isWrite calls = [] \<and> s' = emptyStore"
    using nl link_writes[of unlicensed emptyStore "request GroupSyncableTypeTeam" "autoAdd True"]
    by (simp split: prod.splits)
  have ng: "\<not> linkGranted denyAll (request GroupSyncableTypeChannel)"
    by (simp add: handler_defs concrete_defs)
  have c: "case linkGroupSyncable denyAll emptyStore (request GroupSyncableTypeChannel) (autoAdd True) of
        (res, s', calls) \<Rightarrow> filter isWrite calls = [] \<and> s' = emptyStore"
    using ng link_writes[of denyAll emptyStore "request GroupSyncableTypeChannel" "autoAdd True"]
    by (simp split: prod.splits)
  have lk: "\<exists>x e. lookup grantAll faultyStore (request GroupSyncableTypeTeam) = (x, Some e)
              \<and> DetailedError e \<noteq> ErrNoRows"
    by (simp add: handler_defs concrete_defs)
  have d: "case linkGroupSyncable grantAll faultyStore (request GroupSyncableTypeTeam) (autoAdd True) of
        (res, s', calls) \<Rightarrow> filter isWrite calls = [] \<and> s' = faultyStore"
    using lk link_writes[of grantAll faultyStore "request GroupSyncableTypeTeam" "autoAdd True"]
    by (simp split: prod.splits)
  show ?thesis using a nl b ng c d by simp
qed

subsection \<open>Link: errors of the lookup\<close>

text \<open>
  Claim C3. When the lookup of a link request returns an error whose detail is not
  \<^verbatim>\<open>sql.ErrNoRows\<close>, the handler stops with that very error, the store unchanged and
  no create or update attempted. When the lookup returns no record and the
  \<^verbatim>\<open>sql.ErrNoRows\<close> error, that is no error of the link: the create branch is taken.
\<close>

theorem link_lookup_error:
  assumes ok: "requestOk app c" and lic: "licensed app" and perm: "linkGranted app c"
    and get: "lookup app s c = (found, Some e)"
  shows "(DetailedError e \<noteq> ErrNoRows \<longrightarrow>
            linkGroupSyncable app s c (Payload (Some patch)) =
              (Inl (AppErr e), s, [linkCheck c, lookupCall c]))
       \<and> (DetailedError e = ErrNoRows \<and> found = None \<longrightarrow>
            (let new = Patch (fresh c) patch;
                 persisted = CreateGroupSyncable app s new
             in linkGroupSyncable app s c (Payload (Some patch)) =
                  (respond (fst persisted), snd persisted,
                   [linkCheck c, lookupCall c, CallCreateGroupSyncable new])))"
  using get
  by (auto simp: link_gates[OF ok lic perm] linkPersist_def Let_def fresh_def
      lookup_def lookupCall_def split: option.splits)

theorem link_lookup_error_witness:
  "requestOk grantAll (request GroupSyncableTypeTeam) \<and> licensed grantAll
   \<and> linkGranted grantAll (request GroupSyncableTypeTeam)
   \<and> lookup grantAll faultyStore (request GroupSyncableTypeTeam) = (None, fault faultyStore)
   \<and> linkGroupSyncable grantAll faultyStore (request GroupSyncableTypeTeam)
        (Payload (Some \<lparr>PatchAutoAdd = Some True\<rparr>)) =
       (Inl (AppErr (NewAppError ''SyncableStore'' ''store_failure'' ''connection lost'' 500)),
        faultyStore,
        [CheckTeamPermission (id26 (CHR ''s'')) PERMISSION_MANAGE_TEAM,
         CallGetGroupSyncable (id26 (CHR ''g'')) (id26 (CHR ''s'')) GroupSyncableTypeTeam])
   \<and> lookup grantAll emptyStore (request GroupSyncableTypeTeam) = (None, Some notFound)
   \<and> DetailedError notFound = ErrNoRows
   \<and> snd (snd (linkGroupSyncable grantAll emptyStore (request GroupSyncableTypeTeam)
        (Payload (Some \<lparr>PatchAutoAdd = Some True\<rparr>)))) =
       [CheckTeamPermission (id26 (CHR ''s'')) PERMISSION_MANAGE_TEAM,
        CallGetGroupSyncable (id26 (CHR ''g'')) (id26 (CHR ''s'')) GroupSyncableTypeTeam,
        CallCreateGroupSyncable
          \<lparr>GroupId = id26 (CHR ''g''), SyncableId = id26 (CHR ''s''),
           Type = GroupSyncableTypeTeam, AutoAdd = True, CreateAt = 0, DeleteAt = 0\<rparr>]"
proof -
  have lf: "lookup grantAll faultyStore (request GroupSyncableTypeTeam) =
              (None, Some (NewAppError ''SyncableStore'' ''store_failure'' ''connection lost'' 500))"
    by (simp add: lookup_def grantAll_def storeApp_def storeFind_def faultyStore_def emptyStore_def)
  have ne: "DetailedError (NewAppError ''SyncableStore'' ''store_failure'' ''connection lost'' 500)
              \<noteq> ErrNoRows"
    by (simp add: NewAppError_def ErrNoRows_def)
  have nf: "DetailedError notFound = ErrNoRows"
    by (simp add: notFound_def NewAppError_def)
  note f = link_lookup_error[OF requestOk_grantAll licensed_grantAll linkGranted_grantAll lf,
      of "\<lparr>PatchAutoAdd = Some True\<rparr>"]
  note n = link_lookup_error[OF requestOk_grantAll licensed_grantAll linkGranted_grantAll
      lookup_emptyStore, of GroupSyncableTypeTeam "\<lparr>PatchAutoAdd = Some True\<rparr>"]
  have p1: "linkGroupSyncable grantAll faultyStore (request GroupSyncableTypeTeam)
        (Payload (Some \<lparr>PatchAutoAdd = Some True\<rparr>)) =
       (Inl (AppErr (NewAppError ''SyncableStore'' ''store_failure'' ''connection lost'' 500)),
        faultyStore,
        [CheckTeamPermission (id26 (CHR ''s'')) PERMISSION_MANAGE_TEAM,
         CallGetGroupSyncable (id26 (CHR ''g'')) (id26 (CHR ''s'')) GroupSyncableTypeTeam])"
    using f ne by (simp add: linkCheck_def lookupCall_def request_def)
  have p2: "snd (snd (linkGroupSyncable grantAll emptyStore (request GroupSyncableTypeTeam)
        (Payload (Some \<lparr>PatchAutoAdd = Some True\<rparr>)))) =
       [CheckTeamPermission (id26 (CHR ''s'')) PERMISSION_MANAGE_TEAM,
        CallGetGroupSyncable (id26 (CHR ''g'')) (id26 (CHR ''s'')) GroupSyncableTypeTeam,
        CallCreateGroupSyncable
          \<lparr>GroupId = id26 (CHR ''g''), SyncableId = id26 (CHR ''s''),
           Type = GroupSyncableTypeTeam, AutoAdd = True, CreateAt = 0, DeleteAt = 0\<rparr>]"
    using n nf by (simp add: Let_def linkCheck_def lookupCall_def request_def fresh_def Patch_def)
  show ?thesis
    using requestOk_grantAll licensed_grantAll linkGranted_grantAll lf lookup_emptyStore nf p1 p2
    by (simp add: faultyStore_def emptyStore_def)
qed

subsection \<open>Link: the permission named on denial\<close>

text \<open>
  Claim C2. Linking to a channel checks \<open>PERMISSION_MANAGE_PUBLIC_CHANNEL_MEMBERS\<close> on
  the channel before any call to the store, but a denial sets the permission error for
  \<open>PERMISSION_MANAGE_PRIVATE_CHANNEL_MEMBERS\<close>: the error names a permission that was
  not the one checked.
\<close>

theorem link_channel_denial:
  assumes ok: "requestOk app c" and lic: "licensed app"
    and ty: "Params.SyncableType c = GroupSyncableTypeChannel"
    and denied: "\<not> SessionHasPermissionToChannel app (Params.SyncableId c)
                     PERMISSION_MANAGE_PUBLIC_CHANNEL_MEMBERS"
  shows "linkGroupSyncable app s c (Payload (Some patch)) =
           (Inl (PermissionError PERMISSION_MANAGE_PRIVATE_CHANNEL_MEMBERS), s,
            [CheckChannelPermission (Params.SyncableId c)
               PERMISSION_MANAGE_PUBLIC_CHANNEL_MEMBERS])"
  using ok lic ty denied
  by (simp add: linkGroupSyncable_def requestOk_def linkPermission_def)

theorem link_channel_denial_witness:
  "requestOk denyAll (request GroupSyncableTypeChannel) \<and> licensed denyAll
   \<and> \<not> SessionHasPermissionToChannel denyAll (id26 (CHR ''s''))
         PERMISSION_MANAGE_PUBLIC_CHANNEL_MEMBERS
   \<and> linkGroupSyncable denyAll emptyStore (request GroupSyncableTypeChannel) (autoAdd True) =
       (Inl (PermissionError PERMISSION_MANAGE_PRIVATE_CHANNEL_MEMBERS), emptyStore,
        [CheckChannelPermission (id26 (CHR ''s'')) PERMISSION_MANAGE_PUBLIC_CHANNEL_MEMBERS])"
proof -
  have ok: "requestOk denyAll (request GroupSyncableTypeChannel)"
    by (simp add: requestOk_def denyAll_def storeApp_def request_def requireId_def id26_def)
  have lic: "licensed denyAll"
    by (simp add: licensed_def denyAll_def storeApp_def)
  have ty: "Params.SyncableType (request GroupSyncableTypeChannel) = GroupSyncableTypeChannel"
    by (simp add: request_def)
  have sid: "Params.SyncableId (request GroupSyncableTypeChannel) = id26 (CHR ''s'')"
    by (simp add: request_def)
  have den: "\<not> SessionHasPermissionToChannel denyAll (id26 (CHR ''s''))
         PERMISSION_MANAGE_PUBLIC_CHANNEL_MEMBERS"
    by (simp add: denyAll_def storeApp_def)
  show ?thesis
    using ok lic den link_channel_denial[OF ok lic ty, of emptyStore "\<lparr>PatchAutoAdd = Some True\<rparr>"]
    by (simp add: sid autoAdd_def)
qed

subsection \<open>Patch\<close>

text \<open>
  Claim C6. A patch request that passes the gates fetches the record of the triple.
  When the lookup returns an error, the store's not-found error among them, the handler
  stops with that error, the store unchanged and no write made. When it returns a
  record, the handler applies the fields of the patch and nothing else (identity,
  creation time and \<open>DeleteAt\<close> are those of the fetched record) and makes one update.
  No run of the handler calls \<open>CreateGroupSyncable\<close>.
\<close>

theorem patch_behaviour:
  assumes ok: "requestOk app c" and lic: "licensed app"
    and perm: "SessionHasPermissionTo app PERMISSION_MANAGE_SYSTEM"
    and get: "lookup app s c = (found, appErr)"
  shows "(\<forall>e. appErr = Some e \<longrightarrow>
            patchGroupSyncable app s c (Payload (Some patch)) =
              (Inl (AppErr e), s, [CheckPermission PERMISSION_MANAGE_SYSTEM, lookupCall c]))
       \<and> (\<forall>r. appErr = None \<and> found = Some r \<longrightarrow>
            (let upd = Patch r patch;
                 persisted = UpdateGroupSyncable app s upd
             in DeleteAt upd = DeleteAt r \<and> CreateAt upd = CreateAt r
                \<and> GroupId upd = GroupId r \<and> SyncableId upd = SyncableId r \<and> Type upd = Type r
                \<and> AutoAdd upd = (case PatchAutoAdd patch of None \<Rightarrow> AutoAdd r | Some b \<Rightarrow> b)
                \<and> patchGroupSyncable app s c (Payload (Some patch)) =
                    (respond (fst persisted), snd persisted,
                     [CheckPermission PERMISSION_MANAGE_SYSTEM, lookupCall c,
                      CallUpdateGroupSyncable upd])))
       \<and> (\<forall>body r. CallCreateGroupSyncable r
              \<notin> set (snd (snd (patchGroupSyncable app s c body))))"
proof -
  have never: "\<forall>body r. CallCreateGroupSyncable r
                 \<notin> set (snd (snd (patchGroupSyncable app s c body)))"
    by (auto simp: patchGroupSyncable_def Let_def
        split: option.splits Body.splits prod.splits if_splits)
  have gated: "patchGroupSyncable app s c (Payload (Some patch)) =
      (case lookup app s c of
         (_, Some e) \<Rightarrow>
           (Inl (AppErr e), s, [CheckPermission PERMISSION_MANAGE_SYSTEM, lookupCall c])
       | (None, None) \<Rightarrow>
           (Inl NilDereference, s, [CheckPermission PERMISSION_MANAGE_SYSTEM, lookupCall c])
       | (Some r, None) \<Rightarrow>
           (respond (fst (UpdateGroupSyncable app s (Patch r patch))),
            snd (UpdateGroupSyncable app s (Patch r patch)),
            [CheckPermission PERMISSION_MANAGE_SYSTEM, lookupCall c,
             CallUpdateGroupSyncable (Patch r patch)]))"
    using ok lic perm
    by (simp add: patchGroupSyncable_def requestOk_def lookup_def lookupCall_def Let_def
        split: prod.splits option.splits)
  have failed: "\<forall>e. appErr = Some e \<longrightarrow>
            patchGroupSyncable app s c (Payload (Some patch)) =
              (Inl (AppErr e), s, [CheckPermission PERMISSION_MANAGE_SYSTEM, lookupCall c])"
    by (simp add: gated get split: option.splits)
  have fields: "DeleteAt (Patch r patch) = DeleteAt r \<and> CreateAt (Patch r patch) = CreateAt r
      \<and> GroupId (Patch r patch) = GroupId r \<and> SyncableId (Patch r patch) = SyncableId r
      \<and> Type (Patch r patch) = Type r
      \<and> AutoAdd (Patch r patch) = (case PatchAutoAdd patch of None \<Rightarrow> AutoAdd r | Some b \<Rightarrow> b)"
    for r
    by (simp add: Patch_def split: option.splits)
  have patched: "\<forall>r. appErr = None \<and> found = Some r \<longrightarrow>
            (let upd = Patch r patch;
                 persisted = UpdateGroupSyncable app s upd
             in DeleteAt upd = DeleteAt r \<and> CreateAt upd = CreateAt r
                \<and> GroupId upd = GroupId r \<and> SyncableId upd = SyncableId r \<and> Type upd = Type r
                \<and> AutoAdd upd = (case PatchAutoAdd patch of None \<Rightarrow> AutoAdd r | Some b \<Rightarrow> b)
                \<and> patchGroupSyncable app s c (Payload (Some patch)) =
                    (respond (fst persisted), snd persisted,
                     [CheckPermission PERMISSION_MANAGE_SYSTEM, lookupCall c,
                      CallUpdateGroupSyncable upd]))"
    by (simp add: gated get fields Let_def)
  from failed patched never show ?thesis by (intro conjI)
qed

theorem patch_behaviour_witness:
  "requestOk grantAll (request GroupSyncableTypeTeam) \<and> licensed grantAll
   \<and> SessionHasPermissionTo grantAll PERMISSION_MANAGE_SYSTEM
   \<and> lookup grantAll emptyStore (request GroupSyncableTypeTeam) = (None, Some notFound)
   \<and> patchGroupSyncable grantAll emptyStore (request GroupSyncableTypeTeam) (autoAdd False) =
       (Inl (AppErr notFound), emptyStore,
        [CheckPermission PERMISSION_MANAGE_SYSTEM,
         CallGetGroupSyncable (id26 (CHR ''g'')) (id26 (CHR ''s'')) GroupSyncableTypeTeam])
   \<and> lookup grantAll tombstoneStore (request GroupSyncableTypeTeam) = (Some tombstone, None)
   \<and> fst (patchGroupSyncable grantAll tombstoneStore (request GroupSyncableTypeTeam)
             (autoAdd False)) =
       Inr (Some \<lparr>GroupId = id26 (CHR ''g''), SyncableId = id26 (CHR ''s''),
                  Type = GroupSyncableTypeTeam, AutoAdd = False, CreateAt = 1000,
                  DeleteAt = 2000\<rparr>)"
proof -
  have sys: "SessionHasPermissionTo grantAll PERMISSION_MANAGE_SYSTEM"
    by (simp add: grantAll_def storeApp_def)
  note a = patch_behaviour[OF requestOk_grantAll licensed_grantAll sys lookup_emptyStore,
      of GroupSyncableTypeTeam "\<lparr>PatchAutoAdd = Some False\<rparr>"]
  note b = patch_behaviour[OF requestOk_grantAll licensed_grantAll sys lookup_tombstoneStore,
      of "\<lparr>PatchAutoAdd = Some False\<rparr>"]
  have p1: "patchGroupSyncable grantAll emptyStore (request GroupSyncableTypeTeam) (autoAdd False) =
       (Inl (AppErr notFound), emptyStore,
        [CheckPermission PERMISSION_MANAGE_SYSTEM,
         CallGetGroupSyncable (id26 (CHR ''g'')) (id26 (CHR ''s'')) GroupSyncableTypeTeam])"
    using a by (simp add: autoAdd_def lookupCall_def request_def)
  have p2: "fst (patchGroupSyncable grantAll tombstoneStore (request GroupSyncableTypeTeam)
             (autoAdd False)) =
       Inr (Some \<lparr>GroupId = id26 (CHR ''g''), SyncableId = id26 (CHR ''s''),
                  Type = GroupSyncableTypeTeam, AutoAdd = False, CreateAt = 1000,
                  DeleteAt = 2000\<rparr>)"
    using b
    by (simp add: autoAdd_def Let_def Patch_def tombstone_def grantAll_def storeApp_def
        storeUpdate_def tombstoneStore_def emptyStore_def keyOf_def respond_def)
  show ?thesis
    using requestOk_grantAll licensed_grantAll sys lookup_emptyStore lookup_tombstoneStore p1 p2
    by simp
qed

subsection \<open>Unlink\<close>

text \<open>
  Claim C7. An unlink request that passes the parameter checks and the licence gate is
  gated by the one system permission \<open>PERMISSION_MANAGE_SYSTEM\<close>, whatever the type of
  the syncable: the team and channel permissions of the session play no part. When it
  is granted the handler makes one call, the store's delete for the triple; an error
  the delete returns (the store's not-found error for a missing or tombstoned record)
  is the handler's outcome, not a success.
\<close>

theorem unlink_behaviour:
  assumes ok: "requestOk app c" and lic: "licensed app"
  shows "(\<not> SessionHasPermissionTo app PERMISSION_MANAGE_SYSTEM \<longrightarrow>
            unlinkGroupSyncable app s c =
              (Inl (PermissionError PERMISSION_MANAGE_SYSTEM), s,
               [CheckPermission PERMISSION_MANAGE_SYSTEM]))
       \<and> (SessionHasPermissionTo app PERMISSION_MANAGE_SYSTEM \<longrightarrow>
            (let deleted = DeleteGroupSyncable app s (Params.GroupId c) (Params.SyncableId c)
                             (Params.SyncableType c)
             in unlinkGroupSyncable app s c =
                  ((case snd (fst deleted) of Some e \<Rightarrow> Inl (AppErr e) | None \<Rightarrow> Inr ()),
                   snd deleted,
                   [CheckPermission PERMISSION_MANAGE_SYSTEM,
                    CallDeleteGroupSyncable (Params.GroupId c) (Params.SyncableId c)
                      (Params.SyncableType c)])))
       \<and> (\<forall>team chan.
            unlinkGroupSyncable
              (app\<lparr>SessionHasPermissionToTeam := team, SessionHasPermissionToChannel := chan\<rparr>)
              s c = unlinkGroupSyncable app s c)"
  using ok lic
  by (auto simp: unlinkGroupSyncable_def requestOk_def respond_def Let_def licensed_def
      split: option.splits)

theorem unlink_behaviour_witness:
  "requestOk grantAll (request GroupSyncableTypeChannel) \<and> licensed grantAll
   \<and> SessionHasPermissionTo grantAll PERMISSION_MANAGE_SYSTEM
   \<and> unlinkGroupSyncable grantAll emptyStore (request GroupSyncableTypeChannel) =
       (Inl (AppErr notFound), emptyStore,
        [CheckPermission PERMISSION_MANAGE_SYSTEM,
         CallDeleteGroupSyncable (id26 (CHR ''g'')) (id26 (CHR ''s'')) GroupSyncableTypeChannel])
   \<and> fst (unlinkGroupSyncable grantAll tombstoneStore (request GroupSyncableTypeTeam)) =
       Inl (AppErr notFound)
   \<and> fst (unlinkGroupSyncable grantAll activeStore (request GroupSyncableTypeTeam)) = Inr ()
   \<and> syncables (fst (snd (unlinkGroupSyncable grantAll activeStore
                             (request GroupSyncableTypeTeam)))) (keyOf active) =
       Some (active\<lparr>DeleteAt := 1000\<rparr>)
   \<and> requestOk denyAll (request GroupSyncableTypeTeam) \<and> licensed denyAll
   \<and> \<not> SessionHasPermissionTo denyAll PERMISSION_MANAGE_SYSTEM
   \<and> unlinkGroupSyncable denyAll activeStore (request GroupSyncableTypeTeam) =
       (Inl (PermissionError PERMISSION_MANAGE_SYSTEM), activeStore,
        [CheckPermission PERMISSION_MANAGE_SYSTEM])"
proof -
  have sys: "SessionHasPermissionTo grantAll PERMISSION_MANAGE_SYSTEM"
    by (simp add: grantAll_def storeApp_def)
  have okd: "requestOk denyAll (request GroupSyncableTypeTeam)"
    by (simp add: requestOk_def denyAll_def storeApp_def request_def requireId_def id26_def)
  have licd: "licensed denyAll"
    by (simp add: licensed_def denyAll_def storeApp_def)
  have nsys: "\<not> SessionHasPermissionTo denyAll PERMISSION_MANAGE_SYSTEM"
    by (simp add: denyAll_def storeApp_def)
  note g = unlink_behaviour[OF requestOk_grantAll[of GroupSyncableTypeTeam] licensed_grantAll]
  note h = unlink_behaviour[OF requestOk_grantAll[of GroupSyncableTypeChannel] licensed_grantAll]
  have p1: "unlinkGroupSyncable grantAll emptyStore (request GroupSyncableTypeChannel) =
       (Inl (AppErr notFound), emptyStore,
        [CheckPermission PERMISSION_MANAGE_SYSTEM,
         CallDeleteGroupSyncable (id26 (CHR ''g'')) (id26 (CHR ''s'')) GroupSyncableTypeChannel])"
    using h[of emptyStore] sys
    by (simp add: Let_def request_def grantAll_def storeApp_def storeDelete_def emptyStore_def)
  have p2: "fst (unlinkGroupSyncable grantAll tombstoneStore (request GroupSyncableTypeTeam)) =
       Inl (AppErr notFound)"
    using g[of tombstoneStore] sys
    by (simp add: Let_def request_def grantAll_def storeApp_def storeDelete_def emptyStore_def
        tombstoneStore_def tombstone_def keyOf_def)
  have p3: "fst (unlinkGroupSyncable grantAll activeStore (request GroupSyncableTypeTeam)) = Inr ()
     \<and> syncables (fst (snd (unlinkGroupSyncable grantAll activeStore
                             (request GroupSyncableTypeTeam)))) (keyOf active) =
       Some (active\<lparr>DeleteAt := 1000\<rparr>)"
    using g[of activeStore] sys
    by (simp add: Let_def request_def grantAll_def storeApp_def storeDelete_def emptyStore_def
        activeStore_def active_def tombstone_def keyOf_def)
  have p4: "unlinkGroupSyncable denyAll activeStore (request GroupSyncableTypeTeam) =
       (Inl (PermissionError PERMISSION_MANAGE_SYSTEM), activeStore,
        [CheckPermission PERMISSION_MANAGE_SYSTEM])"
    using unlink_behaviour[OF okd licd, of activeStore] nsys by simp
  show ?thesis
    using requestOk_grantAll licensed_grantAll sys okd licd nsys p1 p2 p3 p4 by simp
qed

subsection \<open>The team filter of getGroups\<close>

text \<open>
  Claim C10. In getGroups, past the licence gate, the NotAssociatedToTeam parameter is
  used exactly when it has 26 characters: then the team permission
  \<open>PERMISSION_MANAGE_TEAM\<close> is checked on it, a denial ends the handler, and otherwise
  the filter is part of the search. With any other length, empty or not, the parameter
  is ignored: no permission is checked, the only call is the paged listing without the
  filter, and the outcome is that listing's, never an invalid-parameter or permission
  error.
\<close>

theorem getGroups_team_filter:
  assumes lic: "licensed app"
  shows "(length (Params.NotAssociatedToTeam c) = 26 \<longrightarrow>
            (let opts = \<lparr>Q = (if 1 < length (Params.Q c) then Some (Params.Q c) else None),
                          NotAssociatedToTeam = Some (Params.NotAssociatedToTeam c),
                          IncludeMemberCount = Params.IncludeMemberCount c\<rparr>;
                 check = CheckTeamPermission (Params.NotAssociatedToTeam c) PERMISSION_MANAGE_TEAM
             in getGroups app s c =
                  (if SessionHasPermissionToTeam app (Params.NotAssociatedToTeam c)
                        PERMISSION_MANAGE_TEAM
                   then (respond (GetGroupsPage app s (Page c) (PerPage c) opts),
                         [check, CallGetGroupsPage (Page c) (PerPage c) opts])
                   else (Inl (PermissionError PERMISSION_MANAGE_TEAM), [check]))))
       \<and> (length (Params.NotAssociatedToTeam c) \<noteq> 26 \<longrightarrow>
            (let opts = \<lparr>Q = (if 1 < length (Params.Q c) then Some (Params.Q c) else None),
                          NotAssociatedToTeam = None,
                          IncludeMemberCount = Params.IncludeMemberCount c\<rparr>
             in getGroups app s c =
                  (respond (GetGroupsPage app s (Page c) (PerPage c) opts),
                   [CallGetGroupsPage (Page c) (PerPage c) opts])
                \<and> (\<forall>n. fst (getGroups app s c) \<noteq> Inl (InvalidParam n)
                        \<and> fst (getGroups app s c) \<noteq> Inl (InvalidUrlParam n))
                \<and> (\<forall>p. fst (getGroups app s c) \<noteq> Inl (PermissionError p))))"
  using lic
  by (auto simp: getGroups_def getGroupsOpts_def Let_def respond_def split: option.splits)

theorem getGroups_team_filter_witness:
  "licensed grantAll \<and> licensed denyAll
   \<and> getGroups grantAll emptyStore
        (Params.NotAssociatedToTeam_update (\<lambda>_. ''not-a-team-id'') (request GroupSyncableTypeTeam)) =
       (Inr [''g1'', ''g2'', ''g3'', ''g4''],
        [CallGetGroupsPage 0 60 \<lparr>Q = None, NotAssociatedToTeam = None, IncludeMemberCount = False\<rparr>])
   \<and> getGroups denyAll emptyStore
        (Params.NotAssociatedToTeam_update (\<lambda>_. ''not-a-team-id'') (request GroupSyncableTypeTeam)) =
       (Inr [''g1'', ''g2'', ''g3'', ''g4''],
        [CallGetGroupsPage 0 60 \<lparr>Q = None, NotAssociatedToTeam = None, IncludeMemberCount = False\<rparr>])
   \<and> getGroups grantAll emptyStore
        (Params.NotAssociatedToTeam_update (\<lambda>_. id26 (CHR ''t'')) (request GroupSyncableTypeTeam)) =
       (Inr [''g4''],
        [CheckTeamPermission (id26 (CHR ''t'')) PERMISSION_MANAGE_TEAM,
         CallGetGroupsPage 0 60
           \<lparr>Q = None, NotAssociatedToTeam = Some (id26 (CHR ''t'')), IncludeMemberCount = False\<rparr>])
   \<and> getGroups denyAll emptyStore
        (Params.NotAssociatedToTeam_update (\<lambda>_. id26 (CHR ''t'')) (request GroupSyncableTypeTeam)) =
       (Inl (PermissionError PERMISSION_MANAGE_TEAM),
        [CheckTeamPermission (id26 (CHR ''t'')) PERMISSION_MANAGE_TEAM])"
proof -
  have licd: "licensed denyAll"
    by (simp add: licensed_def denyAll_def storeApp_def)
  have p1: "getGroups grantAll emptyStore
        (Params.NotAssociatedToTeam_update (\<lambda>_. ''not-a-team-id'') (request GroupSyncableTypeTeam)) =
       (Inr [''g1'', ''g2'', ''g3'', ''g4''],
        [CallGetGroupsPage 0 60 \<lparr>Q = None, NotAssociatedToTeam = None, IncludeMemberCount = False\<rparr>])"
    using getGroups_team_filter[OF licensed_grantAll, of
        "Params.NotAssociatedToTeam_update (\<lambda>_. ''not-a-team-id'') (request GroupSyncableTypeTeam)"
        emptyStore]
    by (simp add: Let_def request_def grantAll_def storeApp_def storeGroupsPage_def
        emptyStore_def pageOf_def respond_def)
  have p2: "getGroups denyAll emptyStore
        (Params.NotAssociatedToTeam_update (\<lambda>_. ''not-a-team-id'') (request GroupSyncableTypeTeam)) =
       (Inr [''g1'', ''g2'', ''g3'', ''g4''],
        [CallGetGroupsPage 0 60 \<lparr>Q = None, NotAssociatedToTeam = None, IncludeMemberCount = False\<rparr>])"
    using getGroups_team_filter[OF licd, of
        "Params.NotAssociatedToTeam_update (\<lambda>_. ''not-a-team-id'') (request GroupSyncableTypeTeam)"
        emptyStore]
    by (simp add: Let_def request_def denyAll_def storeApp_def storeGroupsPage_def
        emptyStore_def pageOf_def respond_def)
  have p3: "getGroups grantAll emptyStore
        (Params.NotAssociatedToTeam_update (\<lambda>_. id26 (CHR ''t'')) (request GroupSyncableTypeTeam)) =
       (Inr [''g4''],
        [CheckTeamPermission (id26 (CHR ''t'')) PERMISSION_MANAGE_TEAM,
         CallGetGroupsPage 0 60
           \<lparr>Q = None, NotAssociatedToTeam = Some (id26 (CHR ''t'')), IncludeMemberCount = False\<rparr>])"
    using getGroups_team_filter[OF licensed_grantAll, of
        "Params.NotAssociatedToTeam_update (\<lambda>_. id26 (CHR ''t'')) (request GroupSyncableTypeTeam)"
        emptyStore]
    by (simp add: Let_def request_def grantAll_def storeApp_def storeGroupsPage_def
        emptyStore_def pageOf_def respond_def id26_def)
  have p4: "getGroups denyAll emptyStore
        (Params.NotAssociatedToTeam_update (\<lambda>_. id26 (CHR ''t'')) (request GroupSyncableTypeTeam)) =
       (Inl (PermissionError PERMISSION_MANAGE_TEAM),
        [CheckTeamPermission (id26 (CHR ''t'')) PERMISSION_MANAGE_TEAM])"
    using getGroups_team_filter[OF licd, of
        "Params.NotAssociatedToTeam_update (\<lambda>_. id26 (CHR ''t'')) (request GroupSyncableTypeTeam)"
        emptyStore]
    by (simp add: Let_def request_def denyAll_def storeApp_def id26_def)
  show ?thesis using licensed_grantAll licd p1 p2 p3 p4 by simp
qed

subsection \<open>The search of getGroupsByTeam\<close>

text \<open>
  Claim C9, as the code has it. getGroupsByTeam past its gates makes one call of
  \<open>GetGroupsByTeam\<close> for the team and returns its outcome. The search it passes holds
  the query when the query has more than one character, the member-count flag, and
  never a NotAssociatedToTeam filter; the page arguments are nil when paginate is
  explicitly false and the page and page size of the request otherwise.
\<close>

theorem getGroupsByTeam_search:
  assumes tid: "RequireTeamId app c = None" and lic: "licensed app"
    and perm: "SessionHasPermissionToTeam app (TeamId c) PERMISSION_MANAGE_TEAM"
  shows "(let opts = \<lparr>Q = (if 1 < length (Params.Q c) then Some (Params.Q c) else None),
                       NotAssociatedToTeam = None,
                       IncludeMemberCount = Params.IncludeMemberCount c\<rparr>;
              page = (if Paginate c = Some False then None else Some (Page c));
              perPage = (if Paginate c = Some False then None else Some (PerPage c))
          in getGroupsByTeam app s c =
               (respond (GetGroupsByTeam app s (TeamId c) page perPage opts),
                [CheckTeamPermission (TeamId c) PERMISSION_MANAGE_TEAM,
                 CallGetGroupsByTeam (TeamId c) page perPage opts]))"
proof -
  have args: "pageArgs c =
      (if Paginate c = Some False then None else Some (Page c),
       if Paginate c = Some False then None else Some (PerPage c))"
    by (simp add: pageArgs_def split: option.splits bool.splits)
  show ?thesis
    using tid lic perm
    by (simp add: getGroupsByTeam_def getGroupsByTeamOpts_def args Let_def)
qed

theorem getGroupsByTeam_search_witness:
  "RequireTeamId grantAll (request GroupSyncableTypeTeam) = None \<and> licensed grantAll
   \<and> SessionHasPermissionToTeam grantAll (id26 (CHR ''t'')) PERMISSION_MANAGE_TEAM
   \<and> getGroupsByTeam grantAll emptyStore
        (Params.Q_update (\<lambda>_. ''dev'') (request GroupSyncableTypeTeam)\<lparr>PerPage := 2\<rparr>) =
       (Inr [''g1'', ''g2''],
        [CheckTeamPermission (id26 (CHR ''t'')) PERMISSION_MANAGE_TEAM,
         CallGetGroupsByTeam (id26 (CHR ''t'')) (Some 0) (Some 2)
           \<lparr>Q = Some ''dev'', NotAssociatedToTeam = None, IncludeMemberCount = False\<rparr>])"
proof -
  have tid: "RequireTeamId grantAll c = None" if "TeamId c = id26 (CHR ''t'')" for c
    using that by (simp add: grantAll_def storeApp_def requireId_def id26_def)
  have perm: "SessionHasPermissionToTeam grantAll t PERMISSION_MANAGE_TEAM" for t
    by (simp add: grantAll_def storeApp_def)
  have t1: "TeamId (Params.Q_update (\<lambda>_. ''dev'') (request GroupSyncableTypeTeam)\<lparr>PerPage := 2\<rparr>)
              = id26 (CHR ''t'')"
    by (simp add: request_def)
  have p: "getGroupsByTeam grantAll emptyStore
        (Params.Q_update (\<lambda>_. ''dev'') (request GroupSyncableTypeTeam)\<lparr>PerPage := 2\<rparr>) =
       (Inr [''g1'', ''g2''],
        [CheckTeamPermission (id26 (CHR ''t'')) PERMISSION_MANAGE_TEAM,
         CallGetGroupsByTeam (id26 (CHR ''t'')) (Some 0) (Some 2)
           \<lparr>Q = Some ''dev'', NotAssociatedToTeam = None, IncludeMemberCount = False\<rparr>])"
    using getGroupsByTeam_search[OF tid[OF t1] licensed_grantAll perm, of emptyStore]
    by (simp add: Let_def request_def grantAll_def storeApp_def storeGroupsByTeam_def
        emptyStore_def pageOf_def respond_def)
  show ?thesis
    using tid[of "request GroupSyncableTypeTeam"] licensed_grantAll perm p
    by (simp add: request_def)
qed

text \<open>
  Claim C9 as the spec states it fails: a request with a well-formed
  NotAssociatedToTeam and a one-character query passes the same search to the store,
  and gets the same outcome, as the request without them.
\<close>

theorem getGroupsByTeam_ignores_options:
  "getGroupsByTeam grantAll emptyStore
     (Params.NotAssociatedToTeam_update (\<lambda>_. id26 (CHR ''x''))
        (Params.Q_update (\<lambda>_. ''d'') (request GroupSyncableTypeTeam))) =
     (Inr [''g1'', ''g2'', ''g3''],
      [CheckTeamPermission (id26 (CHR ''t'')) PERMISSION_MANAGE_TEAM,
       CallGetGroupsByTeam (id26 (CHR ''t'')) (Some 0) (Some 60)
         \<lparr>Q = None, NotAssociatedToTeam = None, IncludeMemberCount = False\<rparr>])
   \<and> getGroupsByTeam grantAll emptyStore
       (Params.NotAssociatedToTeam_update (\<lambda>_. id26 (CHR ''x''))
          (Params.Q_update (\<lambda>_. ''d'') (request GroupSyncableTypeTeam))) =
     getGroupsByTeam grantAll emptyStore (request GroupSyncableTypeTeam)"
  by (simp add: getGroupsByTeam_def getGroupsByTeamOpts_def pageArgs_def licensed_def
      request_def grantAll_def storeApp_def requireId_def id26_def storeGroupsByTeam_def
      emptyStore_def pageOf_def respond_def)

subsection \<open>The unpaginated listing\<close>

lemma concat_pages: "concat (map (\<lambda>i. take k (drop (i * k) xs)) [0..<n]) = take (n * k) xs"
proof (induction n)
  case 0
  show ?case by simp
next
  case (Suc n)
  have "concat (map (\<lambda>i. take k (drop (i * k) xs)) [0..<Suc n]) =
          take (n * k) xs @ take k (drop (n * k) xs)"
    using Suc by simp
  also have "\<dots> = take (n * k + k) xs"
    by (simp only: take_add)
  also have "n * k + k = Suc n * k"
    by simp
  finally show ?case .
qed

lemma getGroupsByTeam_storeApp:
  assumes "length (TeamId c) = 26" "team (TeamId c) PERMISSION_MANAGE_TEAM" "fault st = None"
  shows "getGroupsByTeam (storeApp (Some True) sys team chan) st c =
     (Inr (pageOf (fst (pageArgs c)) (snd (pageArgs c))
             (teamGroups st (TeamId c) (getGroupsByTeamOpts c))),
      [CheckTeamPermission (TeamId c) PERMISSION_MANAGE_TEAM,
       CallGetGroupsByTeam (TeamId c) (fst (pageArgs c)) (snd (pageArgs c))
         (getGroupsByTeamOpts c)])"
  using assms
  by (simp add: getGroupsByTeam_def storeApp_def requireId_def licensed_def
      storeGroupsByTeam_def respond_def split: prod.splits)

text \<open>
  Claim C8. Over the store, a listing of a team's groups with paginate explicitly false
  returns the whole matching sequence, whatever the page and the page size of the
  request. That sequence is the concatenation, in page order, of the pages of a
  paginated traversal (paginate unset or true) whose pages cover the sequence, for
  every page size, 1 among them.
\<close>

theorem unpaginated_listing:
  fixes st :: "'g Store"
  assumes app: "app = storeApp (Some True) sys team chan"
    and tid: "length (TeamId c) = 26"
    and perm: "team (TeamId c) PERMISSION_MANAGE_TEAM"
    and nofault: "fault st = None"
    and enough: "length (teamGroups st (TeamId c) (getGroupsByTeamOpts c)) \<le> n * perPage"
    and paged: "paginate \<noteq> Some False"
  shows "fst (getGroupsByTeam app st (c\<lparr>Paginate := Some False\<rparr>)) =
           Inr (teamGroups st (TeamId c) (getGroupsByTeamOpts c))
       \<and> (\<forall>page size.
            getGroupsByTeam app st (c\<lparr>Paginate := Some False, Page := page, PerPage := size\<rparr>) =
            getGroupsByTeam app st (c\<lparr>Paginate := Some False\<rparr>))
       \<and> traversal app st (c\<lparr>Paginate := paginate\<rparr>) perPage n =
           groupsOf (fst (getGroupsByTeam app st (c\<lparr>Paginate := Some False\<rparr>)))"
proof -
  let ?all = "teamGroups st (TeamId c) (getGroupsByTeamOpts c)"
  have opts: "getGroupsByTeamOpts (c\<lparr>Paginate := pg, Page := p, PerPage := k\<rparr>) = getGroupsByTeamOpts c"
      "getGroupsByTeamOpts (c\<lparr>Paginate := pg\<rparr>) = getGroupsByTeamOpts c" for pg p k
    by (simp_all add: getGroupsByTeamOpts_def)
  have off: "pageArgs (c\<lparr>Paginate := Some False, Page := p, PerPage := k\<rparr>) = (None, None)"
      "pageArgs (c\<lparr>Paginate := Some False\<rparr>) = (None, None)" for p k
    by (simp_all add: pageArgs_def)
  have on: "pageArgs (c\<lparr>Paginate := paginate, Page := p, PerPage := k\<rparr>) = (Some p, Some k)" for p k
    using paged by (simp add: pageArgs_def split: option.splits bool.splits)
  have whole: "getGroupsByTeam app st (c\<lparr>Paginate := Some False, Page := p, PerPage := k\<rparr>) =
      (Inr ?all,
       [CheckTeamPermission (TeamId c) PERMISSION_MANAGE_TEAM,
        CallGetGroupsByTeam (TeamId c) None None (getGroupsByTeamOpts c)])" for p k
    using getGroupsByTeam_storeApp[of "c\<lparr>Paginate := Some False, Page := p, PerPage := k\<rparr>" team st sys chan]
      tid perm nofault
    by (simp add: app opts off pageOf_def)
  have whole': "getGroupsByTeam app st (c\<lparr>Paginate := Some False\<rparr>) =
      (Inr ?all,
       [CheckTeamPermission (TeamId c) PERMISSION_MANAGE_TEAM,
        CallGetGroupsByTeam (TeamId c) None None (getGroupsByTeamOpts c)])"
    using getGroupsByTeam_storeApp[of "c\<lparr>Paginate := Some False\<rparr>" team st sys chan]
      tid perm nofault
    by (simp add: app opts off pageOf_def)
  have page: "groupsOf (fst (getGroupsByTeam app st
                 (c\<lparr>Paginate := paginate, Page := int i, PerPage := int perPage\<rparr>))) =
      take perPage (drop (i * perPage) ?all)" for i
    using getGroupsByTeam_storeApp[of "c\<lparr>Paginate := paginate, Page := int i, PerPage := int perPage\<rparr>"
        team st sys chan] tid perm nofault
    by (simp add: app opts on pageOf_def groupsOf_def)
  have "traversal app st (c\<lparr>Paginate := paginate\<rparr>) perPage n = take (n * perPage) ?all"
    by (simp add: traversal_def page concat_pages)
  also have "\<dots> = ?all" using enough by simp
  finally have trav: "traversal app st (c\<lparr>Paginate := paginate\<rparr>) perPage n = ?all" .
  show ?thesis
    using whole whole' trav by (simp add: groupsOf_def)
qed

theorem unpaginated_listing_witness:
  "grantAll = storeApp (Some True) (\<lambda>p. True) (\<lambda>t p. True) (\<lambda>ch p. True)
   \<and> length (TeamId (request GroupSyncableTypeTeam)) = 26
   \<and> fault emptyStore = None
   \<and> length (teamGroups emptyStore (TeamId (request GroupSyncableTypeTeam))
               (getGroupsByTeamOpts (request GroupSyncableTypeTeam))) \<le> 3 * 1
   \<and> fst (getGroupsByTeam grantAll emptyStore ((request GroupSyncableTypeTeam)\<lparr>Paginate := Some False\<rparr>))
       = Inr [''g1'', ''g2'', ''g3'']
   \<and> traversal grantAll emptyStore ((request GroupSyncableTypeTeam)\<lparr>Paginate := None\<rparr>) 1 3
       = [''g1'', ''g2'', ''g3'']
   \<and> traversal grantAll emptyStore ((request GroupSyncableTypeTeam)\<lparr>Paginate := Some True\<rparr>) 1 3
       = [''g1'', ''g2'', ''g3'']"
proof -
  have tid: "length (TeamId (request GroupSyncableTypeTeam)) = 26"
    by (simp add: request_def id26_def)
  have nofault: "fault emptyStore = None"
    by (simp add: emptyStore_def)
  have all: "teamGroups emptyStore t opts = [''g1'', ''g2'', ''g3'']" for t opts
    by (simp add: emptyStore_def)
  have enough: "length (teamGroups emptyStore (TeamId (request GroupSyncableTypeTeam))
               (getGroupsByTeamOpts (request GroupSyncableTypeTeam))) \<le> 3 * 1"
    by (simp add: all)
  note u = unpaginated_listing[OF grantAll_def tid _ nofault enough]
  have a: "fst (getGroupsByTeam grantAll emptyStore ((request GroupSyncableTypeTeam)\<lparr>Paginate := Some False\<rparr>))
       = Inr [''g1'', ''g2'', ''g3'']"
    using u[of None] by (simp add: all)
  have b: "traversal grantAll emptyStore ((request GroupSyncableTypeTeam)\<lparr>Paginate := None\<rparr>) 1 3
       = [''g1'', ''g2'', ''g3'']"
    using u[of None] by (simp add: all groupsOf_def)
  have c: "traversal grantAll emptyStore ((request GroupSyncableTypeTeam)\<lparr>Paginate := Some True\<rparr>) 1 3
       = [''g1'', ''g2'', ''g3'']"
    using u[of "Some True"] by (simp add: all groupsOf_def)
  show ?thesis using grantAll_def tid nofault enough a b c by simp
qed

subsection \<open>Link, unlink, link again\<close>

lemma keyOf_Patch: "keyOf (Patch r p) = keyOf r"
  by (simp add: keyOf_def Patch_def split: option.splits)

lemma keyOf_fresh: "keyOf (fresh c) = (Params.GroupId c, Params.SyncableId c, Params.SyncableType c)"
  by (simp add: keyOf_def fresh_def)

lemma requestOk_storeApp:
  "requestOk (storeApp lic sys team chan) c \<longleftrightarrow>
     length (Params.GroupId c) = 26 \<and> length (Params.SyncableId c) = 26"
  by (simp add: requestOk_def storeApp_def requireId_def)

lemma licensed_storeApp: "licensed (storeApp (Some True) sys team chan)"
  by (simp add: licensed_def storeApp_def)

lemma link_storeApp_absent:
  fixes st :: "'g Store"
  assumes app: "app = storeApp (Some True) sys team chan"
    and ok: "requestOk app c" and perm: "linkGranted app c"
    and nofault: "fault st = None"
    and absent: "syncables st (keyOf (fresh c)) = None"
  shows "linkGroupSyncable app st c (Payload (Some p)) =
     (Inr (Some ((Patch (fresh c) p)\<lparr>CreateAt := now st\<rparr>)),
      st\<lparr>syncables := (syncables st)(keyOf (fresh c) \<mapsto> (Patch (fresh c) p)\<lparr>CreateAt := now st\<rparr>)\<rparr>,
      [linkCheck c, lookupCall c, CallCreateGroupSyncable (Patch (fresh c) p)])"
proof -
  have lic: "licensed app" by (simp add: app licensed_storeApp)
  have find: "GetGroupSyncable app st (Params.GroupId c) (Params.SyncableId c) (Params.SyncableType c)
                = (None, Some notFound)"
    using nofault absent by (simp add: app storeApp_def storeFind_def keyOf_fresh)
  have nf: "DetailedError notFound = ErrNoRows"
    by (simp add: notFound_def NewAppError_def)
  have create: "CreateGroupSyncable app st (Patch (fresh c) p) =
      ((Some ((Patch (fresh c) p)\<lparr>CreateAt := now st\<rparr>), None),
       st\<lparr>syncables := (syncables st)(keyOf (fresh c) \<mapsto> (Patch (fresh c) p)\<lparr>CreateAt := now st\<rparr>)\<rparr>)"
    using nofault absent by (simp add: app storeApp_def storeCreate_def keyOf_Patch Let_def)
  have persist: "linkPersist app st (Params.GroupId c) (Params.SyncableId c) (Params.SyncableType c) p =
     (Inr (Some ((Patch (fresh c) p)\<lparr>CreateAt := now st\<rparr>)),
      st\<lparr>syncables := (syncables st)(keyOf (fresh c) \<mapsto> (Patch (fresh c) p)\<lparr>CreateAt := now st\<rparr>)\<rparr>,
      [lookupCall c, CallCreateGroupSyncable (Patch (fresh c) p)])"
    unfolding linkPersist_def find
    using nf create by (simp add: Let_def fresh_def respond_def lookupCall_def)
  show ?thesis
    by (simp add: link_gates[OF ok lic perm] persist)
qed

lemma link_storeApp_found:
  fixes st :: "'g Store"
  assumes app: "app = storeApp (Some True) sys team chan"
    and ok: "requestOk app c" and perm: "linkGranted app c"
    and nofault: "fault st = None"
    and found: "syncables st (keyOf (fresh c)) = Some r"
    and key: "keyOf r = keyOf (fresh c)"
  shows "linkGroupSyncable app st c (Payload (Some p)) =
     (Inr (Some (Patch (r\<lparr>DeleteAt := 0\<rparr>) p)),
      st\<lparr>syncables := (syncables st)(keyOf (fresh c) \<mapsto> Patch (r\<lparr>DeleteAt := 0\<rparr>) p)\<rparr>,
      [linkCheck c, lookupCall c, CallUpdateGroupSyncable (Patch (r\<lparr>DeleteAt := 0\<rparr>) p)])"
proof -
  have lic: "licensed app" by (simp add: app licensed_storeApp)
  have find: "GetGroupSyncable app st (Params.GroupId c) (Params.SyncableId c) (Params.SyncableType c)
                = (Some r, None)"
    using nofault found by (simp add: app storeApp_def storeFind_def keyOf_fresh)
  have k: "keyOf (Patch (r\<lparr>DeleteAt := 0\<rparr>) p) = keyOf (fresh c)"
    using key by (simp add: keyOf_Patch) (simp add: keyOf_def)
  have update: "UpdateGroupSyncable app st (Patch (r\<lparr>DeleteAt := 0\<rparr>) p) =
      ((Some (Patch (r\<lparr>DeleteAt := 0\<rparr>) p), None),
       st\<lparr>syncables := (syncables st)(keyOf (fresh c) \<mapsto> Patch (r\<lparr>DeleteAt := 0\<rparr>) p)\<rparr>)"
    using nofault found by (simp add: app storeApp_def storeUpdate_def k)
  have persist: "linkPersist app st (Params.GroupId c) (Params.SyncableId c) (Params.SyncableType c) p =
     (Inr (Some (Patch (r\<lparr>DeleteAt := 0\<rparr>) p)),
      st\<lparr>syncables := (syncables st)(keyOf (fresh c) \<mapsto> Patch (r\<lparr>DeleteAt := 0\<rparr>) p)\<rparr>,
      [lookupCall c, CallUpdateGroupSyncable (Patch (r\<lparr>DeleteAt := 0\<rparr>) p)])"
    unfolding linkPersist_def find
    using update by (simp add: Let_def respond_def lookupCall_def)
  show ?thesis
    by (simp add: link_gates[OF ok lic perm] persist)
qed

lemma unlink_storeApp_active:
  fixes st :: "'g Store"
  assumes app: "app = storeApp (Some True) sys team chan"
    and ok: "requestOk app c" and sysperm: "sys PERMISSION_MANAGE_SYSTEM"
    and nofault: "fault st = None"
    and found: "syncables st (keyOf (fresh c)) = Some r"
    and live: "DeleteAt r = 0"
  shows "unlinkGroupSyncable app st c =
     (Inr (),
      st\<lparr>syncables := (syncables st)(keyOf (fresh c) \<mapsto> r\<lparr>DeleteAt := now st\<rparr>)\<rparr>,
      [CheckPermission PERMISSION_MANAGE_SYSTEM,
       CallDeleteGroupSyncable (Params.GroupId c) (Params.SyncableId c) (Params.SyncableType c)])"
proof -
  have delete: "DeleteGroupSyncable app st (Params.GroupId c) (Params.SyncableId c)
                  (Params.SyncableType c) =
      ((Some (r\<lparr>DeleteAt := now st\<rparr>), None),
       st\<lparr>syncables := (syncables st)(keyOf (fresh c) \<mapsto> r\<lparr>DeleteAt := now st\<rparr>)\<rparr>)"
    using nofault found live
    by (simp add: app storeApp_def storeDelete_def keyOf_fresh Let_def)
  have gate: "licensed app" "SessionHasPermissionTo app PERMISSION_MANAGE_SYSTEM"
    using sysperm by (simp_all add: app licensed_storeApp) (simp add: storeApp_def)
  show ?thesis
    using ok gate
    by (simp add: unlinkGroupSyncable_def requestOk_def delete respond_def Let_def)
qed

text \<open>
  Claim C4. Over the store, with the gates of link and unlink passed and no record for
  the triple: a link with patch \<open>p\<close> creates the record, the unlink tombstones it, and
  a second link with patch \<open>p2\<close> returns and stores a record with the identity and the
  creation time of the first, \<open>DeleteAt\<close> 0, and the auto-add flag of \<open>p2\<close> when \<open>p2\<close>
  has one (the flag left by \<open>p\<close> stays only when \<open>p2\<close> has none).
\<close>

theorem resurrection:
  fixes st :: "'g Store"
  assumes app: "app = storeApp (Some True) sys team chan"
    and gid: "length (Params.GroupId c) = 26" and sid: "length (Params.SyncableId c) = 26"
    and sysperm: "sys PERMISSION_MANAGE_SYSTEM"
    and perm: "linkGranted app c"
    and nofault: "fault st = None"
    and absent: "syncables st (Params.GroupId c, Params.SyncableId c, Params.SyncableType c) = None"
  shows "(case linkGroupSyncable app st c (Payload (Some p)) of (r1, st1, _) \<Rightarrow>
          (case unlinkGroupSyncable app st1 c of (r2, st2, _) \<Rightarrow>
            (case linkGroupSyncable app st2 c (Payload (Some p2)) of (r3, st3, _) \<Rightarrow>
               (let key = (Params.GroupId c, Params.SyncableId c, Params.SyncableType c);
                    first = (Patch (fresh c) p)\<lparr>CreateAt := now st\<rparr>;
                    final = Patch (first\<lparr>DeleteAt := 0\<rparr>) p2
                in r1 = Inr (Some first) \<and> DeleteAt first = 0
                   \<and> r2 = Inr ()
                   \<and> syncables st2 key = Some (first\<lparr>DeleteAt := now st\<rparr>)
                   \<and> r3 = Inr (Some final) \<and> syncables st3 key = Some final
                   \<and> GroupId final = Params.GroupId c
                   \<and> SyncableId final = Params.SyncableId c
                   \<and> Type final = Params.SyncableType c
                   \<and> CreateAt final = CreateAt first
                   \<and> DeleteAt final = 0
                   \<and> AutoAdd final =
                       (case PatchAutoAdd p2 of Some b \<Rightarrow> b | None \<Rightarrow> AutoAdd first)))))"
proof -
  let ?key = "keyOf (fresh c)"
  let ?first = "(Patch (fresh c) p)\<lparr>CreateAt := now st\<rparr>"
  let ?tomb = "?first\<lparr>DeleteAt := now st\<rparr>"
  let ?final = "Patch (?first\<lparr>DeleteAt := 0\<rparr>) p2"
  let ?st1 = "st\<lparr>syncables := (syncables st)(?key \<mapsto> ?first)\<rparr>"
  let ?st2 = "?st1\<lparr>syncables := (syncables ?st1)(?key \<mapsto> ?tomb)\<rparr>"
  let ?st3 = "?st2\<lparr>syncables := (syncables ?st2)(?key \<mapsto> ?final)\<rparr>"
  have ok: "requestOk app c"
    using gid sid by (simp add: app requestOk_storeApp)
  have absent': "syncables st ?key = None"
    using absent by (simp add: keyOf_fresh)
  have live: "DeleteAt ?first = 0"
    by (simp add: Patch_def fresh_def split: option.splits)
  have l1: "linkGroupSyncable app st c (Payload (Some p)) =
      (Inr (Some ?first), ?st1, [linkCheck c, lookupCall c, CallCreateGroupSyncable (Patch (fresh c) p)])"
    by (rule link_storeApp_absent[OF app ok perm nofault absent'])
  have u: "unlinkGroupSyncable app ?st1 c =
      (Inr (), ?st2,
       [CheckPermission PERMISSION_MANAGE_SYSTEM,
        CallDeleteGroupSyncable (Params.GroupId c) (Params.SyncableId c) (Params.SyncableType c)])"
    using unlink_storeApp_active[OF app ok sysperm, of ?st1 ?first] nofault live
    by simp
  have tkey: "keyOf ?tomb = ?key"
    by (simp add: keyOf_def Patch_def fresh_def split: option.splits)
  have l2: "linkGroupSyncable app ?st2 c (Payload (Some p2)) =
      (Inr (Some ?final), ?st3,
       [linkCheck c, lookupCall c, CallUpdateGroupSyncable ?final])"
    using link_storeApp_found[OF app ok perm, of ?st2 ?tomb p2] nofault tkey
    by simp
  have fields: "GroupId ?final = Params.GroupId c \<and> SyncableId ?final = Params.SyncableId c
      \<and> Type ?final = Params.SyncableType c \<and> CreateAt ?final = CreateAt ?first
      \<and> DeleteAt ?final = 0
      \<and> AutoAdd ?final = (case PatchAutoAdd p2 of Some b \<Rightarrow> b | None \<Rightarrow> AutoAdd ?first)"
    by (simp add: Patch_def fresh_def split: option.splits)
  show ?thesis
    unfolding l1 prod.case u l2 Let_def
    using live fields by (simp add: keyOf_fresh)
qed

theorem resurrection_witness:
  "grantAll = storeApp (Some True) (\<lambda>p. True) (\<lambda>t p. True) (\<lambda>ch p. True)
   \<and> linkGranted grantAll (request GroupSyncableTypeTeam)
   \<and> fault emptyStore = None
   \<and> syncables emptyStore (id26 (CHR ''g''), id26 (CHR ''s''), GroupSyncableTypeTeam) = None
   \<and> (case linkGroupSyncable grantAll emptyStore (request GroupSyncableTypeTeam)
             (Payload (Some \<lparr>PatchAutoAdd = Some True\<rparr>)) of (r1, st1, _) \<Rightarrow>
        (case unlinkGroupSyncable grantAll st1 (request GroupSyncableTypeTeam) of (r2, st2, _) \<Rightarrow>
          (case linkGroupSyncable grantAll st2 (request GroupSyncableTypeTeam)
                  (Payload (Some \<lparr>PatchAutoAdd = Some False\<rparr>)) of (r3, st3, _) \<Rightarrow>
             r1 = Inr (Some \<lparr>GroupId = id26 (CHR ''g''), SyncableId = id26 (CHR ''s''),
                             Type = GroupSyncableTypeTeam, AutoAdd = True, CreateAt = 1000,
                             DeleteAt = 0\<rparr>)
             \<and> r2 = Inr ()
             \<and> syncables st2 (id26 (CHR ''g''), id26 (CHR ''s''), GroupSyncableTypeTeam) =
                 Some \<lparr>GroupId = id26 (CHR ''g''), SyncableId = id26 (CHR ''s''),
                       Type = GroupSyncableTypeTeam, AutoAdd = True, CreateAt = 1000,
                       DeleteAt = 1000\<rparr>
             \<and> r3 = Inr (Some \<lparr>GroupId = id26 (CHR ''g''), SyncableId = id26 (CHR ''s''),
                               Type = GroupSyncableTypeTeam, AutoAdd = False, CreateAt = 1000,
                               DeleteAt = 0\<rparr>))))"
proof -
  have gid: "length (Params.GroupId (request GroupSyncableTypeTeam)) = 26"
    and sid: "length (Params.SyncableId (request GroupSyncableTypeTeam)) = 26"
    by (simp_all add: request_def id26_def)
  have sys: "(\<lambda>p. True) PERMISSION_MANAGE_SYSTEM"
    by simp
  have nofault: "fault emptyStore = None"
    by (simp add: emptyStore_def)
  have absent: "syncables emptyStore k = None" for k
    by (simp add: emptyStore_def)
  note r = resurrection[OF grantAll_def gid sid sys linkGranted_grantAll nofault absent,
      of "\<lparr>PatchAutoAdd = Some True\<rparr>" "\<lparr>PatchAutoAdd = Some False\<rparr>"]
  have run: "case linkGroupSyncable grantAll emptyStore (request GroupSyncableTypeTeam)
             (Payload (Some \<lparr>PatchAutoAdd = Some True\<rparr>)) of (r1, st1, _) \<Rightarrow>
        (case unlinkGroupSyncable grantAll st1 (request GroupSyncableTypeTeam) of (r2, st2, _) \<Rightarrow>
          (case linkGroupSyncable grantAll st2 (request GroupSyncableTypeTeam)
                  (Payload (Some \<lparr>PatchAutoAdd = Some False\<rparr>)) of (r3, st3, _) \<Rightarrow>
             r1 = Inr (Some \<lparr>GroupId = id26 (CHR ''g''), SyncableId = id26 (CHR ''s''),
                             Type = GroupSyncableTypeTeam, AutoAdd = True, CreateAt = 1000,
                             DeleteAt = 0\<rparr>)
             \<and> r2 = Inr ()
             \<and> syncables st2 (id26 (CHR ''g''), id26 (CHR ''s''), GroupSyncableTypeTeam) =
                 Some \<lparr>GroupId = id26 (CHR ''g''), SyncableId = id26 (CHR ''s''),
                       Type = GroupSyncableTypeTeam, AutoAdd = True, CreateAt = 1000,
                       DeleteAt = 1000\<rparr>
             \<and> r3 = Inr (Some \<lparr>GroupId = id26 (CHR ''g''), SyncableId = id26 (CHR ''s''),
                               Type = GroupSyncableTypeTeam, AutoAdd = False, CreateAt = 1000,
                               DeleteAt = 0\<rparr>)))"
    using r
    by (simp add: Let_def Patch_def fresh_def request_def emptyStore_def split: prod.splits)
  show ?thesis
    using grantAll_def linkGranted_grantAll nofault absent run by simp
qed

end
